theory Spec2Isabelle
  imports Main "HOL-Library.Word"
begin

unbundle bit_operations_syntax

section \<open>Octets, memory and host byte order\<close>

type_synonym octet = "8 word"

text \<open>
  A 16-bit value read from two consecutive octets in host byte order. The flag says
  whether the host is big-endian; \<open>b0\<close> is the octet at the lower address.
\<close>

definition load16 :: "bool \<Rightarrow> octet \<Rightarrow> octet \<Rightarrow> int" where
  "load16 big_endian b0 b1 =
     (if big_endian then uint b0 * 256 + uint b1 else uint b0 + uint b1 * 256)"

text \<open>The two octets a 16-bit value occupies in memory, in host byte order.\<close>

definition bytes16 :: "bool \<Rightarrow> 16 word \<Rightarrow> octet list" where
  "bytes16 big_endian v =
     (if big_endian then [ucast (drop_bit 8 v), ucast v] else [ucast v, ucast (drop_bit 8 v)])"

text \<open>\<open>memmove(&buf[off], src, length src)\<close> into a buffer that is long enough.\<close>

definition poke :: "octet list \<Rightarrow> nat \<Rightarrow> octet list \<Rightarrow> octet list" where
  "poke buf off src = take off buf @ src @ drop (off + length src) buf"

section \<open>Internet checksum\<close>

text \<open>
  \<open>in_cksum\<close>: the \<open>while (nleft > 1)\<close> loop adds the 16-bit words of the buffer, read in
  host byte order, to the accumulator \<open>sum\<close> (here \<open>s\<close>); an odd last octet is stored into the first
  octet of the zeroed 16-bit \<open>answer\<close> and added. The list is the \<open>nleft\<close> octets at
  \<open>_addr\<close>. The accumulator is a C \<open>int\<close>: a 32-bit word in two's complement, whose
  addition wraps around and whose \<open>>>\<close> is the arithmetic shift \<open>signed_drop_bit\<close>. The
  result is the complement of the accumulator, cut to the 16 bits of \<open>answer\<close>.
\<close>

fun cksum_sum :: "bool \<Rightarrow> octet list \<Rightarrow> 32 word \<Rightarrow> 32 word" where
  "cksum_sum be (b0 # b1 # bs) s = cksum_sum be bs (s + word_of_int (load16 be b0 b1))"
| "cksum_sum be [b] s = s + word_of_int (load16 be b 0)"
| "cksum_sum be [] s = s"

definition in_cksum :: "bool \<Rightarrow> octet list \<Rightarrow> 16 word" where
  "in_cksum be addr =
     (let s = cksum_sum be addr 0;
          s = signed_drop_bit 16 s + (s AND 0xffff);
          s = s + signed_drop_bit 16 s
      in ucast (NOT s))"

section \<open>Outcomes\<close>

text \<open>
  A failed \<open>assert\<close> aborts the process. Functions that contain an assertion return an
  outcome; a function that may loop forever returns an \<open>option\<close> on top, \<open>None\<close> meaning
  that it never returns.
\<close>

datatype 'a outcome = Returns 'a | Assertion_Failed

section \<open>The DISCOVER encode path\<close>

text \<open>Global variables that are set once at start-up and only read afterwards.\<close>

record globals =
  big_endian :: bool
  dhcp_server_port :: "16 word"
  dhcp_client_port :: "16 word"
  client_mac_address :: "octet list"
  interface_name :: string
  command_name :: string
  opt_audible :: bool
  opt_quiet :: bool



definition sizeof_bootp :: nat where "sizeof_bootp = 240"

definition broadcast_mac_address :: "octet list" where
  "broadcast_mac_address = [0xff, 0xff, 0xff, 0xff, 0xff, 0xff]"

definition DHCP_MAGIC_COOKIE :: "32 word" where
  "DHCP_MAGIC_COOKIE = 0x63825363"










section \<open>Formatted output\<close>

text \<open>The conversions of \<open>printf\<close> that the program uses.\<close>

definition digit_char :: "nat \<Rightarrow> char" where
  "digit_char d = ''0123456789abcdef'' ! d"

text \<open>\<open>%u\<close> (and \<open>%d\<close> of a value that is not negative).\<close>

fun fmt_u :: "nat \<Rightarrow> string" where
  "fmt_u n = (if n < 10 then [digit_char n] else fmt_u (n div 10) @ [digit_char (n mod 10)])"

declare fmt_u.simps [simp del]

text \<open>\<open>%02u\<close>.\<close>

definition fmt_02u :: "nat \<Rightarrow> string" where
  "fmt_02u n = (if n < 10 then CHR ''0'' # fmt_u n else fmt_u n)"

text \<open>\<open>%02x\<close> of an octet.\<close>

definition fmt_02x :: "octet \<Rightarrow> string" where
  "fmt_02x b = [digit_char (unat b div 16), digit_char (unat b mod 16)]"

text \<open>\<open>%u.%u.%u.%u\<close> of four octets.\<close>

definition fmt_ipv4 :: "octet \<Rightarrow> octet \<Rightarrow> octet \<Rightarrow> octet \<Rightarrow> string" where
  "fmt_ipv4 a b c d =
     fmt_u (unat a) @ ''.'' @ fmt_u (unat b) @ ''.'' @ fmt_u (unat c) @ ''.'' @ fmt_u (unat d)"

text \<open>\<open>%02x:%02x:%02x:%02x:%02x:%02x\<close> of the six octets of a MAC address.\<close>

definition fmt_mac :: "octet list \<Rightarrow> string" where
  "fmt_mac m =
     fmt_02x (m ! 0) @ '':'' @ fmt_02x (m ! 1) @ '':'' @ fmt_02x (m ! 2) @ '':'' @
     fmt_02x (m ! 3) @ '':'' @ fmt_02x (m ! 4) @ '':'' @ fmt_02x (m ! 5)"

text \<open>\<open>%s\<close> of a character array: the characters before the first NUL.\<close>

definition char_of_octet :: "octet \<Rightarrow> char" where
  "char_of_octet b = char_of (unat b)"

definition fmt_s :: "octet list \<Rightarrow> string" where
  "fmt_s bs = map char_of_octet (takeWhile (\<lambda>b. b \<noteq> 0) bs)"

text \<open>\<open>ntohl\<close> and \<open>ntohs\<close> of a field, given as the octets of the field in memory.\<close>

definition ntohl :: "octet list \<Rightarrow> 32 word" where
  "ntohl bs = push_bit 24 (ucast (bs ! 0)) OR push_bit 16 (ucast (bs ! 1)) OR
              push_bit 8 (ucast (bs ! 2)) OR ucast (bs ! 3)"

definition ntohs :: "octet list \<Rightarrow> 16 word" where
  "ntohs bs = push_bit 8 (ucast (bs ! 0)) OR ucast (bs ! 1)"

section \<open>The responder registry\<close>

text \<open>
  A \<open>struct kv_node\<close> is a pair of key and value. The doubly-linked lists of
  \<open>list_node.c\<close> are used only through \<open>new_list\<close>, \<open>add_node_to_list_tail\<close>,
  \<open>get_list_head\<close> and \<open>get_next_node\<close>, so a list is the sequence of its nodes from head
  to tail.
\<close>

type_synonym kv_node = "string \<times> string"

record dhcp_server_response_data =
  stamp :: "int \<times> int"
  server_ipv4_address :: "octet list"
  server_mac_address :: "octet list"
  dhcp_response :: "kv_node list"
  dhcp_option :: "kv_node list"

definition add_node_to_list_tail :: "'a list \<Rightarrow> 'a \<Rightarrow> 'a list" where
  "add_node_to_list_tail list node = list @ [node]"

text \<open>
  \<open>find_dhcp_server_data\<close>: the first record whose four address octets and six MAC octets
  both compare equal (\<open>memcmp\<close>); \<open>None\<close> is the \<open>NULL\<close> result.
\<close>

definition find_dhcp_server_data ::
  "dhcp_server_response_data list \<Rightarrow> octet list \<Rightarrow> octet list \<Rightarrow>
   dhcp_server_response_data option" where
  "find_dhcp_server_data list ipv4_address mac_address =
     find (\<lambda>data. take 4 (server_ipv4_address data) = take 4 ipv4_address \<and>
                   take 6 (server_mac_address data) = take 6 mac_address) list"

text \<open>
  \<open>create_dhcp_server_data\<close>: the new record, stamped with the result of
  \<open>gettimeofday\<close>, or \<open>None\<close> when \<open>calloc\<close> fails. The caller appends key/value nodes to
  the record through the returned pointer while the record is already the tail of the
  registry; the model appends the record to the registry when it is complete.
\<close>

definition create_dhcp_server_data ::
  "bool \<Rightarrow> int \<times> int \<Rightarrow> octet list \<Rightarrow> octet list \<Rightarrow> dhcp_server_response_data option" where
  "create_dhcp_server_data calloc_fails now ipv4_address mac_address =
     (if calloc_fails then None
      else Some \<lparr>stamp = now,
                 server_ipv4_address = take 4 ipv4_address,
                 server_mac_address = take 6 mac_address,
                 dhcp_response = [],
                 dhcp_option = []\<rparr>)"

text \<open>
  \<open>add_dhcp_response\<close> and \<open>add_dhcp_option\<close>, with the value already formatted. The
  allocations of \<open>create_kv_node\<close> are taken to succeed.
\<close>

definition add_dhcp_response ::
  "dhcp_server_response_data \<Rightarrow> string \<Rightarrow> string \<Rightarrow> dhcp_server_response_data" where
  "add_dhcp_response data k v = data\<lparr>dhcp_response := add_node_to_list_tail (dhcp_response data) (k, v)\<rparr>"

definition add_dhcp_option ::
  "dhcp_server_response_data \<Rightarrow> string \<Rightarrow> string \<Rightarrow> dhcp_server_response_data" where
  "add_dhcp_option data k v = data\<lparr>dhcp_option := add_node_to_list_tail (dhcp_option data) (k, v)\<rparr>"

section \<open>Scanning the option area\<close>

text \<open>
  The option area is given as the pointer \<open>vendor_options\<close> and the length
  \<open>vendor_options_length\<close>, which \<open>udp_input\<close> computes from the length field of the UDP
  header. Memory is modelled from the pointer on, as a function from the offset to the
  octet there: offsets from \<open>vendor_options_length\<close> on lie behind the option area.
\<close>

type_synonym memory = "nat \<Rightarrow> octet"

text \<open>\<open>get_dhcp_message_type\<close>, as the loop from position \<open>pos\<close> on.\<close>

function get_dhcp_message_type_loop :: "memory \<Rightarrow> int \<Rightarrow> nat \<Rightarrow> int" where
  "get_dhcp_message_type_loop vendor_options vendor_options_length pos =
     (if int pos < vendor_options_length then
        if vendor_options pos = 0 then
          get_dhcp_message_type_loop vendor_options vendor_options_length (pos + 1)
        else if vendor_options pos = 255 \<or> int (pos + 1) = vendor_options_length then -1
        else if int (pos + 2) = vendor_options_length then -1
        else if vendor_options pos = 53 then uint (vendor_options (pos + 2))
        else get_dhcp_message_type_loop vendor_options vendor_options_length
               (pos + 2 + unat (vendor_options (pos + 1)))
      else -1)"
  by pat_completeness auto
termination
proof (relation "measure (\<lambda>(v, l, pos). nat (l - int pos))")
  fix v :: memory and l :: int and pos :: nat
  assume "int pos < l"
  moreover have "- uint (v (Suc pos)) < 2"
    using uint_nonnegative [of "v (Suc pos)"] by linarith
  ultimately show "((v, l, pos + 2 + unat (v (pos + 1))), (v, l, pos)) \<in>
                   measure (\<lambda>(v, l, pos). nat (l - int pos))"
    by simp
qed auto

declare get_dhcp_message_type_loop.simps [simp del]

definition get_dhcp_message_type :: "memory \<Rightarrow> int \<Rightarrow> int" where
  "get_dhcp_message_type vendor_options vendor_options_length =
     get_dhcp_message_type_loop vendor_options vendor_options_length 0"

text \<open>
  The head of the option loop of \<open>dhcp_input\<close>: for every option that the loop reaches,
  its type octet, its length octet and the position of its value. The loop body copies
  \<open>option_length\<close> octets from that position and then decodes the option (see
  \<open>dhcp_input_option\<close>); it changes neither \<open>pos\<close> nor the option area, so the positions
  do not depend on it.
\<close>

function dhcp_input_scan :: "memory \<Rightarrow> int \<Rightarrow> nat \<Rightarrow> (octet \<times> octet \<times> nat) list" where
  "dhcp_input_scan vendor_options vendor_options_length pos =
     (if int pos < vendor_options_length then
        if vendor_options pos = 0 then
          dhcp_input_scan vendor_options vendor_options_length (pos + 1)
        else if vendor_options pos = 255 \<or> int (pos + 1) = vendor_options_length then []
        else if int (pos + 2) = vendor_options_length then []
        else (vendor_options pos, vendor_options (pos + 1), pos + 2) #
             dhcp_input_scan vendor_options vendor_options_length
               (pos + 2 + unat (vendor_options (pos + 1)))
      else [])"
  by pat_completeness auto
termination
proof (relation "measure (\<lambda>(v, l, pos). nat (l - int pos))")
  fix v :: memory and l :: int and pos :: nat
  assume "int pos < l"
  moreover have "- uint (v (Suc pos)) < 2"
    using uint_nonnegative [of "v (Suc pos)"] by linarith
  ultimately show "((v, l, pos + 2 + unat (v (pos + 1))), (v, l, pos)) \<in>
                   measure (\<lambda>(v, l, pos). nat (l - int pos))"
    by simp
qed auto

declare dhcp_input_scan.simps [simp del]

text \<open>\<open>memmove(dst, &vendor_options[pos], n)\<close>: the octets read.\<close>

definition mem_read :: "memory \<Rightarrow> nat \<Rightarrow> nat \<Rightarrow> octet list" where
  "mem_read m pos n = map m [pos ..< pos + n]"

section \<open>Route options\<close>

text \<open>
  \<open>decode_classless_static_route\<close>. The text buffer is the text written so far (\<open>len\<close> is
  its length); \<open>text_buffer_size\<close> is the size after the decrement for the NUL. The result
  is the pair of the returned number and the text; the number is \<open>-1\<close> after \<open>goto out\<close>.
  \<open>snprintf\<close> into \<open>decoded_route_buffer[256]\<close> is not cut short: a route has at most 34
  characters.
\<close>

definition fmt_octets4 :: "octet list \<Rightarrow> string" where
  "fmt_octets4 bs = fmt_ipv4 (bs ! 0) (bs ! 1) (bs ! 2) (bs ! 3)"

function decode_classless_static_route_loop ::
  "octet list \<Rightarrow> int \<Rightarrow> nat \<Rightarrow> nat \<Rightarrow> string \<Rightarrow> int \<Rightarrow> (int \<times> string) outcome" where
  "decode_classless_static_route_loop option_data option_length text_buffer_size pos
       text_buffer num_routes_decoded =
     (if int pos < option_length then
        if unat (option_data ! pos) > 4 then Returns (-1, text_buffer)
        else if int (pos + 1 + unat (option_data ! pos)) > option_length
        then Returns (-1, text_buffer)
        else if int (pos + 1 + unat (option_data ! pos) + 4) > option_length
        then Returns (-1, text_buffer)
        else
          let num_destination_octets = unat (option_data ! pos);
              destination_octets =
                take num_destination_octets (drop (pos + 1) option_data) @
                replicate (4 - num_destination_octets) 0;
              route_octets = take 4 (drop (pos + 1 + num_destination_octets) option_data);
              decoded_route_buffer =
                (if num_destination_octets = 0 then fmt_octets4 route_octets
                 else if num_destination_octets = 4
                 then fmt_octets4 destination_octets @ '' -> '' @ fmt_octets4 route_octets
                 else fmt_octets4 destination_octets @ ''/'' @
                      fmt_u (num_destination_octets * 8) @ '' -> '' @
                      fmt_octets4 route_octets);
              separated = (if length text_buffer > 0 then text_buffer @ '', ''
                           else text_buffer)
          in
            if \<not> length decoded_route_buffer > 0 then Assertion_Failed
            else if length text_buffer > 0 \<and> length text_buffer + 2 > text_buffer_size
            then Returns (-1, text_buffer)
            else if length separated + length decoded_route_buffer > text_buffer_size
            then Returns (-1, separated)
            else decode_classless_static_route_loop option_data option_length
                   text_buffer_size (pos + 1 + unat (option_data ! pos) + 4)
                   (separated @ decoded_route_buffer) (num_routes_decoded + 1)
      else Returns (num_routes_decoded, text_buffer))"
  by pat_completeness auto
termination
  apply (relation "measure (\<lambda>(d, l, s, pos, t, n). nat (l - int pos))")
   apply simp
  subgoal premises p for option_data option_length text_buffer_size pos
  proof -
    have "- uint (option_data ! pos) < 5"
      using uint_nonnegative [of "option_data ! pos"] by linarith
    with p(1) show ?thesis by simp
  qed
  done

declare decode_classless_static_route_loop.simps [simp del]

definition decode_classless_static_route ::
  "octet list \<Rightarrow> int \<Rightarrow> nat \<Rightarrow> (int \<times> string) outcome" where
  "decode_classless_static_route option_data option_length text_buffer_size =
     decode_classless_static_route_loop option_data option_length
       (if text_buffer_size > 0 then text_buffer_size - 1 else text_buffer_size) 0 [] 0"

text \<open>\<open>decode_static_route\<close>, in the same way.\<close>

function decode_static_route_loop ::
  "octet list \<Rightarrow> int \<Rightarrow> nat \<Rightarrow> nat \<Rightarrow> string \<Rightarrow> int \<Rightarrow> (int \<times> string) outcome" where
  "decode_static_route_loop option_data option_length text_buffer_size pos
       text_buffer num_routes_decoded =
     (if int pos < option_length then
        if unat (option_data ! pos) = 0 then Returns (num_routes_decoded, text_buffer)
        else if int (pos + 1 + 4 + 4) > option_length then Returns (-1, text_buffer)
        else
          let destination_octets = take 4 (drop (pos + 1) option_data);
              route_octets = take 4 (drop (pos + 1 + 4) option_data);
              decoded_route_buffer =
                fmt_octets4 destination_octets @ '' -> '' @ fmt_octets4 route_octets;
              separated = (if length text_buffer > 0 then text_buffer @ '', ''
                           else text_buffer)
          in
            if \<not> length decoded_route_buffer > 0 then Assertion_Failed
            else if length text_buffer > 0 \<and> length text_buffer + 2 > text_buffer_size
            then Returns (-1, text_buffer)
            else if length separated + length decoded_route_buffer > text_buffer_size
            then Returns (-1, separated)
            else decode_static_route_loop option_data option_length text_buffer_size
                   (pos + 1 + 4 + 4) (separated @ decoded_route_buffer)
                   (num_routes_decoded + 1)
      else Returns (num_routes_decoded, text_buffer))"
  by pat_completeness auto
termination
  by (relation "measure (\<lambda>(d, l, s, pos, t, n). nat (l - int pos))") auto

declare decode_static_route_loop.simps [simp del]

definition decode_static_route ::
  "octet list \<Rightarrow> int \<Rightarrow> nat \<Rightarrow> (int \<times> string) outcome" where
  "decode_static_route option_data option_length text_buffer_size =
     decode_static_route_loop option_data option_length
       (if text_buffer_size > 0 then text_buffer_size - 1 else text_buffer_size) 0 [] 0"

section \<open>Durations\<close>

text \<open>
  \<open>convert_seconds_to_readable_form\<close>. The buffer passed is always the 1500 octets of
  \<open>text_buffer\<close>, which no result fills.
\<close>

definition convert_seconds_to_readable_form :: "nat \<Rightarrow> string" where
  "convert_seconds_to_readable_form seconds =
     (if seconds < 60 then []
      else if seconds < 60 * 60 then
        (let minutes = seconds div 60 in
         '' ('' @ fmt_u minutes @ '':'' @ fmt_02u (seconds mod 60) @
         (if minutes > 1 then '' minutes)'' else '' minute)''))
      else if seconds < 24 * 60 * 60 then
        (let hours = seconds div (60 * 60) in
         '' ('' @ fmt_u hours @ '':'' @ fmt_02u ((seconds div 60) mod 60) @ '':'' @
         fmt_02u (seconds mod 60) @
         (if hours > 1 then '' hours)'' else '' hour)''))
      else
        (let days = seconds div (24 * 60 * 60) in
         '' ('' @ fmt_u days @ '':'' @ fmt_02u ((seconds div (60 * 60)) mod 24) @ '':'' @
         fmt_02u ((seconds div 60) mod 60) @ '':'' @ fmt_02u (seconds mod 60) @
         (if days > 1 then '' days)'' else '' day)'')))"

section \<open>Domain search (option 119)\<close>

text \<open>
  \<open>fill_aggregate_buffer_from_option\<close>, first loop: the memory required for the data of
  all options of type \<open>aggregate_option_type\<close>. The loop does not skip the value of an
  option.
\<close>

function aggregate_required_size :: "memory \<Rightarrow> int \<Rightarrow> octet \<Rightarrow> nat \<Rightarrow> nat \<Rightarrow> nat" where
  "aggregate_required_size vendor_options vendor_options_length aggregate_option_type
       read_pos required_size =
     (if int read_pos < vendor_options_length then
        if vendor_options read_pos = 0 then
          aggregate_required_size vendor_options vendor_options_length aggregate_option_type
            (read_pos + 1) required_size
        else if vendor_options read_pos = 255 \<or> int (read_pos + 1) = vendor_options_length
        then required_size
        else if int (read_pos + 2) = vendor_options_length then required_size
        else aggregate_required_size vendor_options vendor_options_length
               aggregate_option_type (read_pos + 2)
               (if vendor_options read_pos = aggregate_option_type
                then required_size + unat (vendor_options (read_pos + 1))
                else required_size)
      else required_size)"
  by pat_completeness auto
termination
  by (relation "measure (\<lambda>(v, l, t, pos, r). nat (l - int pos))") auto

declare aggregate_required_size.simps [simp del]

text \<open>
  Second loop: the data copied so far is \<open>output\<close>, and \<open>output_pos\<close> is its length. The
  loop skips the value of an option of the aggregated type only.
\<close>

function aggregate_copy ::
  "memory \<Rightarrow> int \<Rightarrow> octet \<Rightarrow> nat \<Rightarrow> nat \<Rightarrow> octet list \<Rightarrow> octet list outcome" where
  "aggregate_copy vendor_options vendor_options_length aggregate_option_type required_size
       read_pos output =
     (if int read_pos < vendor_options_length then
        if vendor_options read_pos = 0 then
          aggregate_copy vendor_options vendor_options_length aggregate_option_type
            required_size (read_pos + 1) output
        else if vendor_options read_pos = 255 \<or> int (read_pos + 1) = vendor_options_length
        then Returns output
        else if int (read_pos + 2) = vendor_options_length then Returns output
        else if vendor_options read_pos = aggregate_option_type then
          if \<not> length output + unat (vendor_options (read_pos + 1)) \<le> required_size
          then Assertion_Failed
          else aggregate_copy vendor_options vendor_options_length aggregate_option_type
                 required_size (read_pos + 2 + unat (vendor_options (read_pos + 1)))
                 (output @ mem_read vendor_options (read_pos + 2)
                             (unat (vendor_options (read_pos + 1))))
        else aggregate_copy vendor_options vendor_options_length aggregate_option_type
               required_size (read_pos + 2) output
      else Returns output)"
  by pat_completeness auto
termination
proof (relation "measure (\<lambda>(v, l, t, r, pos, out). nat (l - int pos))")
  fix v :: memory and l :: int and pos :: nat and t :: octet and r :: nat and out :: "octet list"
  assume "int pos < l"
  moreover have "- uint (v (Suc pos)) < 2"
    using uint_nonnegative [of "v (Suc pos)"] by linarith
  ultimately show "((v, l, t, r, pos + 2 + unat (v (pos + 1)),
                     out @ mem_read v (pos + 2) (unat (v (pos + 1)))), (v, l, t, r, pos, out)) \<in>
                   measure (\<lambda>(v, l, t, r, pos, out). nat (l - int pos))"
    by simp
qed auto

declare aggregate_copy.simps [simp del]

text \<open>
  \<open>fill_aggregate_buffer_from_option\<close>: \<open>Returns None\<close> is the result \<open>false\<close>,
  \<open>Returns (Some buffer)\<close> the result \<open>true\<close> with the aggregate buffer, whose size is
  \<open>required_size\<close>. \<open>malloc\<close> is taken to succeed; the octets of the fresh block, which the
  second loop need not overwrite, are \<open>fresh\<close>.
\<close>

definition fill_aggregate_buffer_from_option ::
  "memory \<Rightarrow> memory \<Rightarrow> int \<Rightarrow> octet \<Rightarrow> octet list option outcome" where
  "fill_aggregate_buffer_from_option fresh vendor_options vendor_options_length
       aggregate_option_type =
     (if \<not> (0 < aggregate_option_type \<and> aggregate_option_type < 255) then Assertion_Failed
      else
        let required_size = aggregate_required_size vendor_options vendor_options_length
                              aggregate_option_type 0 0 in
        if required_size = 0 then Returns None
        else
          (case aggregate_copy vendor_options vendor_options_length aggregate_option_type
                  required_size 0 [] of
             Assertion_Failed \<Rightarrow> Assertion_Failed
           | Returns output \<Rightarrow>
               Returns (Some (output @ map fresh [length output ..< required_size]))))"

text \<open>\<open>get_domain_name_size\<close>, as the loop from position \<open>pos\<close> on.\<close>

function get_domain_name_size_loop :: "octet list \<Rightarrow> nat \<Rightarrow> nat \<Rightarrow> nat" where
  "get_domain_name_size_loop buffer buffer_size pos =
     (if pos < buffer_size then
        if buffer ! pos = 0 then pos + 1
        else if (buffer ! pos) AND 0xc0 = 0 then
          if pos + 1 + unat (buffer ! pos) > buffer_size then 0
          else get_domain_name_size_loop buffer buffer_size (pos + 1 + unat (buffer ! pos))
        else if (buffer ! pos) AND 0xc0 = 0xc0 then
          if pos + 1 = buffer_size then 0 else pos + 1 + 1
        else 0
      else pos)"
  by pat_completeness auto
termination
  by (relation "measure (\<lambda>(b, s, pos). s - pos)") auto

declare get_domain_name_size_loop.simps [simp del]

definition get_domain_name_size :: "octet list \<Rightarrow> nat \<Rightarrow> nat" where
  "get_domain_name_size buffer buffer_size = get_domain_name_size_loop buffer buffer_size 0"

text \<open>
  \<open>decode_domain_name\<close>: the \<open>while\<close> loop, with the octets written to the output buffer so
  far (\<open>output_pos\<close> is their number). The result is the returned length, which is 0 after
  \<open>goto out\<close>, and the output buffer. The loop follows compression pointers and may not
  end: \<open>None\<close> says that the function never returns.
\<close>

partial_function (option) decode_domain_name_loop ::
  "octet list \<Rightarrow> nat \<Rightarrow> nat \<Rightarrow> nat \<Rightarrow> octet list \<Rightarrow> (nat \<times> octet list) outcome option" where
  "decode_domain_name_loop input_buffer input_buffer_size output_buffer_size input_pos
       output_buffer =
     (if input_pos < input_buffer_size \<and> input_buffer ! input_pos \<noteq> 0 then
        if (input_buffer ! input_pos) AND 0xc0 = 0 then
          if input_pos + 1 + unat (input_buffer ! input_pos) > input_buffer_size
          then Some (Returns (0, output_buffer))
          else decode_domain_name_loop input_buffer input_buffer_size output_buffer_size
                 (input_pos + 1 + unat (input_buffer ! input_pos))
                 (if length output_buffer + unat (input_buffer ! input_pos) + 1
                       < output_buffer_size
                  then (if length output_buffer > 0 then output_buffer @ [0x2e]
                        else output_buffer) @
                       take (unat (input_buffer ! input_pos))
                         (drop (input_pos + 1) input_buffer)
                  else output_buffer)
        else if (input_buffer ! input_pos) AND 0xc0 = 0xc0 then
          if input_pos + 1 = input_buffer_size then Some (Returns (0, output_buffer))
          else if unat ((input_buffer ! input_pos) AND NOT 0xc0) * 256 +
                  unat (input_buffer ! (input_pos + 1)) \<ge> input_buffer_size
          then Some (Returns (0, output_buffer))
          else decode_domain_name_loop input_buffer input_buffer_size output_buffer_size
                 (unat ((input_buffer ! input_pos) AND NOT 0xc0) * 256 +
                  unat (input_buffer ! (input_pos + 1)))
                 output_buffer
        else Some (Returns (0, output_buffer))
      else if \<not> length output_buffer < output_buffer_size then Some Assertion_Failed
      else Some (Returns (length output_buffer, output_buffer)))"

declare decode_domain_name_loop.simps [code]

definition decode_domain_name ::
  "octet list \<Rightarrow> nat \<Rightarrow> nat \<Rightarrow> nat \<Rightarrow> (nat \<times> octet list) outcome option" where
  "decode_domain_name input_buffer input_buffer_size input_pos output_buffer_size =
     (if \<not> output_buffer_size > 0 then Some Assertion_Failed
      else decode_domain_name_loop input_buffer input_buffer_size output_buffer_size
             input_pos [])"

text \<open>
  \<open>decode_domain_search\<close>: the \<open>for\<close> loop over the aggregate buffer, with the octets
  written to \<open>buffer\<close> so far (\<open>buffer_pos\<close> is their number).
\<close>

function decode_domain_search_loop ::
  "octet list \<Rightarrow> nat \<Rightarrow> nat \<Rightarrow> nat \<Rightarrow> octet list \<Rightarrow> octet list outcome option" where
  "decode_domain_search_loop aggregate_buffer aggregate_buffer_size buffer_size pos buffer =
     (if pos < aggregate_buffer_size then
        if get_domain_name_size (drop pos aggregate_buffer) (aggregate_buffer_size - pos) = 0
        then Some (Returns buffer)
        else
          (case decode_domain_name aggregate_buffer aggregate_buffer_size pos 256 of
             None \<Rightarrow> None
           | Some Assertion_Failed \<Rightarrow> Some Assertion_Failed
           | Some (Returns (domain_name_length, domain_name_buffer)) \<Rightarrow>
               decode_domain_search_loop aggregate_buffer aggregate_buffer_size buffer_size
                 (pos + get_domain_name_size (drop pos aggregate_buffer)
                          (aggregate_buffer_size - pos))
                 (if domain_name_length > 0 then
                    (let separated =
                           (if length buffer > 0 \<and> length buffer + 2 < buffer_size
                            then buffer @ [0x2c, 0x20] else buffer)
                     in if length separated + domain_name_length < buffer_size
                        then separated @ take domain_name_length domain_name_buffer
                        else separated)
                  else buffer))
      else Some (Returns buffer))"
  by pat_completeness auto
termination
  by (relation "measure (\<lambda>(a, s, b, pos, t). s - pos)") auto

declare decode_domain_search_loop.simps [simp del]

text \<open>
  The result is the pair of \<open>found\<close> and the text in \<open>buffer\<close> up to the NUL that the
  function writes at \<open>buffer_pos\<close>.
\<close>

definition decode_domain_search ::
  "memory \<Rightarrow> memory \<Rightarrow> int \<Rightarrow> octet \<Rightarrow> nat \<Rightarrow> (bool \<times> octet list) outcome option" where
  "decode_domain_search fresh vendor_options vendor_options_length aggregate_option_type
       buffer_size =
     (if \<not> buffer_size > 0 then Some Assertion_Failed
      else
        (case fill_aggregate_buffer_from_option fresh vendor_options vendor_options_length
                aggregate_option_type of
           Assertion_Failed \<Rightarrow> Some Assertion_Failed
         | Returns None \<Rightarrow> Some (Returns (False, []))
         | Returns (Some aggregate_buffer) \<Rightarrow>
             (case decode_domain_search_loop aggregate_buffer (length aggregate_buffer)
                     buffer_size 0 [] of
                None \<Rightarrow> None
              | Some Assertion_Failed \<Rightarrow> Some Assertion_Failed
              | Some (Returns buffer) \<Rightarrow> Some (Returns (True, buffer)))))"

section \<open>Decoding one option\<close>

text \<open>
  The local variables of \<open>dhcp_input\<close> that live across the iterations of the option loop:
  the 260 octets of \<open>aligned_buffer\<close> (read through \<open>option_data\<close>), the bitmap
  \<open>ignore_option\<close> of 32 octets, and the record \<open>server_data\<close> points to.
\<close>

record option_state =
  option_data :: "octet list"
  ignore_option :: "octet list"
  server_data :: dhcp_server_response_data

definition message_types :: "string list" where
  "message_types =
     [''discover'', ''offer'', ''request'', ''decline'', ''acknowledge'',
      ''negative acknowledgement'', ''release'', ''inform'']"

text \<open>
  The loops \<open>for(i = 0 ; i < option_length ; i += 4)\<close> that add one address per
  iteration; they run only when \<open>option_length\<close> is a multiple of 4.
\<close>

definition add_addresses ::
  "dhcp_server_response_data \<Rightarrow> string \<Rightarrow> octet list \<Rightarrow> nat \<Rightarrow> dhcp_server_response_data" where
  "add_addresses data k od option_length =
     foldl (\<lambda>data i. add_dhcp_option data k
                        (fmt_ipv4 (od ! i) (od ! (i + 1)) (od ! (i + 2)) (od ! (i + 3))))
           data (map (\<lambda>n. 4 * n) [0 ..< option_length div 4])"

text \<open>
  The options that carry a number of seconds: \<open>ntohl\<close> of the first four octets of the
  aligned buffer, printed with \<open>%u seconds%s\<close>.
\<close>

definition add_seconds ::
  "dhcp_server_response_data \<Rightarrow> string \<Rightarrow> octet list \<Rightarrow> dhcp_server_response_data" where
  "add_seconds data k od =
     (let seconds = unat (ntohl od)
      in add_dhcp_option data k
           (fmt_u seconds @ '' seconds'' @ convert_seconds_to_readable_form seconds))"

text \<open>
  The body of the option loop, in three parts. First the copy of the value into the
  aligned buffer (\<open>memmove\<close> of \<open>option_length\<close> octets from \<open>pos\<close>) and the NUL behind the
  copy.
\<close>

definition copy_option_data :: "memory \<Rightarrow> option_state \<Rightarrow> nat \<Rightarrow> nat \<Rightarrow> option_state" where
  "copy_option_data vendor_options st pos option_length =
     st\<lparr>option_data :=
          poke (poke (option_data st) 0 (mem_read vendor_options pos option_length))
               option_length [0]\<rparr>"

text \<open>The test and the setting of a bit of the bitmap \<open>ignore_option\<close>.\<close>

definition option_ignored :: "option_state \<Rightarrow> octet \<Rightarrow> bool" where
  "option_ignored st option_type =
     ((ignore_option st ! (unat option_type div 8)) AND
      push_bit (unat option_type mod 8) 1 \<noteq> 0)"

definition ignore_from_now :: "option_state \<Rightarrow> octet \<Rightarrow> option_state" where
  "ignore_from_now st option_type =
     st\<lparr>ignore_option :=
          (ignore_option st)
            [unat option_type div 8 :=
               (ignore_option st ! (unat option_type div 8)) OR
               push_bit (unat option_type mod 8) 1]\<rparr>"

text \<open>The end of a case of the \<open>switch\<close>, with the record as the case has left it.\<close>

definition emit :: "option_state \<Rightarrow> dhcp_server_response_data \<Rightarrow> option_state outcome option" where
  "emit st data = Some (Returns (st\<lparr>server_data := data\<rparr>))"

text \<open>
  The \<open>switch\<close>, case by case in the order of the source; \<open>option_data st\<close> is the
  aligned buffer after the copy.
\<close>

definition dhcp_input_switch ::
  "memory \<Rightarrow> memory \<Rightarrow> int \<Rightarrow> option_state \<Rightarrow> octet \<Rightarrow> nat \<Rightarrow>
   option_state outcome option" where
  "dhcp_input_switch fresh vendor_options vendor_options_length st option_type option_length =
     (if option_type = 53 then
        (if 1 \<le> option_data st ! 0 \<and> option_data st ! 0 \<le> 8
         then emit st (add_dhcp_option (server_data st) ''dhcp-message-type''
                      (fmt_u (unat (option_data st ! 0)) @ '' ('' @
                       message_types ! (unat (option_data st ! 0) - 1) @ '')''))
         else emit st (add_dhcp_option (server_data st) ''dhcp-message-type'' (fmt_u (unat (option_data st ! 0)))))
      else if option_type = 54 then
        (if option_length \<ge> 4
         then emit st (add_dhcp_option (server_data st) ''server-identifier'' (fmt_octets4 (option_data st)))
         else emit st (server_data st))
      else if option_type = 51 then
        (if option_length \<ge> 4 then emit st (add_seconds (server_data st) ''ip-address-lease-time'' (option_data st))
         else emit st (server_data st))
      else if option_type = 1 then
        (if option_length \<ge> 4
         then emit st (add_dhcp_option (server_data st) ''subnet-mask'' (fmt_octets4 (option_data st)))
         else emit st (server_data st))
      else if option_type = 3 then
        (if option_length \<ge> 4 \<and> option_length mod 4 = 0
         then emit st (add_addresses (server_data st) ''gateway'' (option_data st) option_length)
         else emit st (server_data st))
      else if option_type = 6 then
        (if option_length \<ge> 4 \<and> option_length mod 4 = 0
         then emit st (add_addresses (server_data st) ''domain-name-server'' (option_data st) option_length)
         else emit st (server_data st))
      else if option_type = 15 then
        emit st (add_dhcp_option (server_data st) ''domain-name'' (fmt_s (option_data st)))
      else if option_type = 57 then
        (if option_length \<ge> 4
         then emit st (add_dhcp_option (server_data st) ''maximum-dhcp-message-size''
                      (fmt_u (unat (ntohs (option_data st)))))
         else emit st (server_data st))
      else if option_type = 58 then
        (if option_length \<ge> 4 then emit st (add_seconds (server_data st) ''renewal-time'' (option_data st))
         else emit st (server_data st))
      else if option_type = 59 then
        (if option_length \<ge> 4 then emit st (add_seconds (server_data st) ''rebinding-time'' (option_data st))
         else emit st (server_data st))
      else if option_type = 33 then
        (case decode_static_route (option_data st) (int option_length) 1500 of
           Assertion_Failed \<Rightarrow> Some Assertion_Failed
         | Returns (n, text_buffer) \<Rightarrow>
             if n > 0 then emit st (add_dhcp_option (server_data st) ''static-route'' text_buffer)
             else emit st (server_data st))
      else if option_type = 56 then
        emit st (add_dhcp_option (server_data st) ''message'' (fmt_s (option_data st)))
      else if option_type = 119 then
        (case decode_domain_search fresh vendor_options vendor_options_length
                option_type 1500 of
           None \<Rightarrow> None
         | Some Assertion_Failed \<Rightarrow> Some Assertion_Failed
         | Some (Returns (found, text_buffer)) \<Rightarrow>
             if found
             then emit (ignore_from_now st option_type)
                    (add_dhcp_option (server_data st) ''domain-search'' (fmt_s text_buffer))
             else emit (ignore_from_now st option_type) (server_data st))
      else if option_type = 121 then
        (case decode_classless_static_route (option_data st) (int option_length) 1500 of
           Assertion_Failed \<Rightarrow> Some Assertion_Failed
         | Returns (n, text_buffer) \<Rightarrow>
             if n > 0 then emit st (add_dhcp_option (server_data st) ''classless-static-route'' text_buffer)
             else emit st (server_data st))
      else if option_type = 252 then
        emit st (add_dhcp_option (server_data st) ''web-proxy-auto-discovery'' (fmt_s (option_data st)))
      else if option_type = 95 then
        emit st (add_dhcp_option (server_data st) ''ldap-url'' (fmt_s (option_data st)))
      else if option_type = 44 then
        (if option_length \<ge> 4 \<and> option_length mod 4 = 0
         then emit st (add_addresses (server_data st) ''netbios-over-tcp-ip-name-server'' (option_data st) option_length)
         else emit st (server_data st))
      else if option_type = 46 then
        emit st (add_dhcp_option (server_data st) ''netbios-over-tcp-ip-node-type'' (fmt_u (unat (option_data st ! 0))))
      else if option_type = 47 then
        emit st (add_dhcp_option (server_data st) ''netbios-over-tcp-ip-scope'' (fmt_s (option_data st)))
      else if option_type = 31 then
        emit st (add_dhcp_option (server_data st) ''perform-router-discovery''
                (if option_data st ! 0 \<noteq> 0 then ''yes'' else ''no''))
      else if option_type = 26 then
        emit st (add_dhcp_option (server_data st) ''interface-mtu'' (fmt_u (unat (ntohs (option_data st)))))
      else if option_type = 42 then
        (if option_length \<ge> 4 \<and> option_length mod 4 = 0
         then emit st (add_addresses (server_data st) ''network-time-protocol-server'' (option_data st) option_length)
         else emit st (server_data st))
      else if option_type = 28 then
        (if option_length \<ge> 4
         then emit st (add_dhcp_option (server_data st) ''broadcast-address'' (fmt_octets4 (option_data st)))
         else emit st (server_data st))
      else if option_type = 116 then
        emit st (add_dhcp_option (server_data st) ''auto-configure''
                (if option_data st ! 0 \<noteq> 0 then ''AutoConfigure'' else ''DoNotAutoConfigure''))
      else
        emit st (add_dhcp_option (server_data st) (''option-'' @ fmt_u (unat option_type))
                (fmt_u option_length @ '' data bytes'')))"

text \<open>
  The body of the option loop for the option of type \<open>option_type\<close> and length
  \<open>option_len\<close> whose value starts at \<open>pos\<close>.
\<close>

definition dhcp_input_option ::
  "memory \<Rightarrow> memory \<Rightarrow> int \<Rightarrow> option_state \<Rightarrow> octet \<times> octet \<times> nat \<Rightarrow>
   option_state outcome option" where
  "dhcp_input_option fresh vendor_options vendor_options_length st opt =
     (case opt of (option_type, option_len, pos) \<Rightarrow>
        if option_ignored (copy_option_data vendor_options st pos (unat option_len)) option_type
        then Some (Returns (copy_option_data vendor_options st pos (unat option_len)))
        else dhcp_input_switch fresh vendor_options vendor_options_length
               (copy_option_data vendor_options st pos (unat option_len))
               option_type (unat option_len))"

text \<open>The option loop: the body, run on the options that the head of the loop reaches.\<close>

fun dhcp_input_loop ::
  "memory \<Rightarrow> memory \<Rightarrow> int \<Rightarrow> option_state \<Rightarrow> (octet \<times> octet \<times> nat) list \<Rightarrow>
   option_state outcome option" where
  "dhcp_input_loop fresh vendor_options vendor_options_length st [] = Some (Returns st)"
| "dhcp_input_loop fresh vendor_options vendor_options_length st (opt # opts) =
     (case dhcp_input_option fresh vendor_options vendor_options_length st opt of
        None \<Rightarrow> None
      | Some Assertion_Failed \<Rightarrow> Some Assertion_Failed
      | Some (Returns st) \<Rightarrow>
          dhcp_input_loop fresh vendor_options vendor_options_length st opts)"

section \<open>Incoming DHCP responses\<close>

text \<open>
  The fields of the Ethernet header and of the BOOTP message that \<open>dhcp_input\<close> reads,
  each as its octets in the frame (\<open>file_name\<close> is the field \<open>file\<close>); \<open>vend\<close> is the
  memory from the first option octet on.
\<close>

record ether_header =
  ether_dhost :: "octet list"
  ether_shost :: "octet list"

record bootp_t =
  opcode :: octet
  xid :: "octet list"
  yiaddr :: "octet list"
  siaddr :: "octet list"
  giaddr :: "octet list"
  sname :: "octet list"
  file_name :: "octet list"
  magic_cookie :: "octet list"
  vend :: memory

text \<open>
  The global variables that \<open>dhcp_input\<close> changes, together with whether it has called
  \<open>pcap_breakloop\<close>.
\<close>

record state =
  dhcp_server_response_list :: "dhcp_server_response_data list"
  opt_max_response_count :: int
  breakloop :: bool

text \<open>
  What a call of \<open>dhcp_input\<close> finds and does not control: the time \<open>gettimeofday\<close>
  returns, whether \<open>calloc\<close> fails in \<open>create_dhcp_server_data\<close>, the content of the
  uninitialised \<open>aligned_buffer\<close> and of the block \<open>malloc\<close> returns.
\<close>

record surroundings =
  time_of_day :: "int \<times> int"
  calloc_fails :: bool
  aligned_buffer :: "octet list"
  malloc_block :: memory

definition MESSAGE_TYPE_OFFER :: int where "MESSAGE_TYPE_OFFER = 2"
definition BOOTREPLY :: octet where "BOOTREPLY = 2"

definition server_ipv4_address_of :: "32 word \<Rightarrow> octet list" where
  "server_ipv4_address_of server_address =
     [ucast (drop_bit 24 server_address AND 0xff), ucast (drop_bit 16 server_address AND 0xff),
      ucast (drop_bit 8 server_address AND 0xff), ucast (server_address AND 0xff)]"

definition fmt_address :: "32 word \<Rightarrow> string" where
  "fmt_address ipv4_address =
     fmt_u (unat (drop_bit 24 ipv4_address AND 0xff)) @ ''.'' @
     fmt_u (unat (drop_bit 16 ipv4_address AND 0xff)) @ ''.'' @
     fmt_u (unat (drop_bit 8 ipv4_address AND 0xff)) @ ''.'' @
     fmt_u (unat (ipv4_address AND 0xff))"

definition duplicate_message :: "globals \<Rightarrow> octet list \<Rightarrow> octet list \<Rightarrow> string" where
  "duplicate_message g ipv4_address mac_address =
     command_name g @ '': Duplicate response from DHCP server at IPv4 address '' @
     fmt_octets4 ipv4_address @ ''/MAC address '' @ fmt_mac mac_address @
     '' ignored.'' @ [CHR 0x0A]"

definition no_memory_message :: "globals \<Rightarrow> octet list \<Rightarrow> octet list \<Rightarrow> string" where
  "no_memory_message g ipv4_address mac_address =
     command_name g @
     '': Not enough memory to record response from DHCP server at IPv4 address '' @
     fmt_octets4 ipv4_address @ ''/MAC address '' @ fmt_mac mac_address @
     ''.'' @ [CHR 0x0A]"

text \<open>The acceptance test at the head of \<open>dhcp_input\<close>: true when the frame is dropped.\<close>

definition dhcp_input_rejects :: "bootp_t \<Rightarrow> 32 word \<Rightarrow> int \<Rightarrow> bool" where
  "dhcp_input_rejects dhcp transaction_id len =
     (opcode dhcp \<noteq> BOOTREPLY \<or> ntohl (magic_cookie dhcp) \<noteq> DHCP_MAGIC_COOKIE \<or>
      ntohl (xid dhcp) \<noteq> transaction_id \<or>
      get_dhcp_message_type (vend dhcp) (len - int sizeof_bootp) \<noteq> MESSAGE_TYPE_OFFER)"

text \<open>The general response information added to a new record, before the options.\<close>

definition dhcp_input_response ::
  "globals \<Rightarrow> ether_header \<Rightarrow> octet list \<Rightarrow> bootp_t \<Rightarrow> dhcp_server_response_data \<Rightarrow>
   dhcp_server_response_data" where
  "dhcp_input_response g eframe ipv4_address dhcp data =
     (let data = add_dhcp_response data ''network-interface''
                   (interface_name g @ '' ('' @ fmt_mac (client_mac_address g) @ '')'');
          text_buffer = take 64 (sname dhcp) @ [0];
          data = (if text_buffer ! 0 \<noteq> 0
                  then add_dhcp_response data ''server-name''
                         ([CHR 0x22] @ fmt_s text_buffer @ [CHR 0x22])
                  else data);
          data = add_dhcp_response data ''server-ipv4-address'' (fmt_octets4 ipv4_address);
          data = add_dhcp_response data ''server-mac-address'' (fmt_mac (ether_shost eframe));
          data = add_dhcp_response data ''destination-mac-address''
                   (fmt_mac (ether_dhost eframe) @ '' ('' @
                    (if take 6 (ether_dhost eframe) = broadcast_mac_address
                     then ''broadcast'' else ''unicast'') @ '')'');
          data = add_dhcp_response data ''offered-ipv4-address''
                   (fmt_address (ntohl (yiaddr dhcp)));
          data = (if ntohl (siaddr dhcp) \<noteq> 0
                  then add_dhcp_response data ''next-server-ipv4-address''
                         (fmt_address (ntohl (siaddr dhcp)))
                  else data);
          data = (if ntohl (giaddr dhcp) \<noteq> 0
                  then add_dhcp_response data ''relay-agent-ipv4-address''
                         (fmt_address (ntohl (giaddr dhcp)))
                  else data);
          text_buffer = take 128 (file_name dhcp) @ [0];
          data = (if text_buffer ! 0 \<noteq> 0
                  then add_dhcp_response data ''boot-file-name''
                         ([CHR 0x22] @ fmt_s text_buffer @ [CHR 0x22])
                  else data)
      in data)"

text \<open>
  \<open>dhcp_input\<close>. \<open>ip_src\<close> is the field \<open>ip_src\<close> of the IP header, \<open>len\<close> the parameter
  \<open>length\<close>. The result is a pair. Its first part is the text that the call writes to
  the standard error stream: the bell character, which is flushed at once, and the line
  about a duplicate response or about the lack of memory. All of it is written before the
  option loop starts, so it is written also by a call that does not return; the message
  that a failed \<open>assert\<close> prints before it aborts the program is not part of it. The second
  part is the state after the call; \<open>Some Assertion_Failed\<close> when an assertion aborts the
  program, \<open>None\<close> when the call never returns.
\<close>

definition dhcp_input ::
  "globals \<Rightarrow> surroundings \<Rightarrow> ether_header \<Rightarrow> octet list \<Rightarrow> bootp_t \<Rightarrow> 32 word \<Rightarrow> int \<Rightarrow>
   state \<Rightarrow> string \<times> state outcome option" where
  "dhcp_input g env eframe ip_src dhcp transaction_id len st =
     (let vendor_options = vend dhcp;
          vendor_options_length = len - int sizeof_bootp
      in
      if dhcp_input_rejects dhcp transaction_id len then ([], Some (Returns st))
      else
        let bell = (if opt_audible g then [CHR 0x07] else []);
            ipv4_address = server_ipv4_address_of (ntohl ip_src)
        in
        case find_dhcp_server_data (dhcp_server_response_list st) ipv4_address
               (ether_shost eframe) of
          Some found \<Rightarrow>
            (bell @ (if \<not> opt_quiet g
                     then duplicate_message g ipv4_address (ether_shost eframe) else []),
             Some (Returns st))
        | None \<Rightarrow>
            (case create_dhcp_server_data (calloc_fails env) (time_of_day env) ipv4_address
                    (ether_shost eframe) of
               None \<Rightarrow>
                 (bell @ (if \<not> opt_quiet g
                          then no_memory_message g ipv4_address (ether_shost eframe) else []),
                  Some (Returns st))
             | Some data \<Rightarrow>
                 (bell,
                  case dhcp_input_loop (malloc_block env) vendor_options vendor_options_length
                         \<lparr>option_data = aligned_buffer env,
                          ignore_option = replicate 32 0,
                          server_data = dhcp_input_response g eframe ipv4_address dhcp data\<rparr>
                         (dhcp_input_scan vendor_options vendor_options_length 0) of
                    None \<Rightarrow> None
                  | Some Assertion_Failed \<Rightarrow> Some Assertion_Failed
                  | Some (Returns ost) \<Rightarrow>
                      let st = st\<lparr>dhcp_server_response_list :=
                                     add_node_to_list_tail (dhcp_server_response_list st)
                                       (server_data ost)\<rparr>
                      in
                      if opt_max_response_count st > 0 then
                        Some (Returns
                          (st\<lparr>opt_max_response_count := opt_max_response_count st - 1,
                              breakloop := (if opt_max_response_count st - 1 = 0 then True
                                            else breakloop st)\<rparr>))
                      else Some (Returns st))))"

section \<open>Observations used in the statements and proofs\<close>


text \<open>A memory that holds the given octets from offset 0 on, and zero octets behind them.\<close>

definition memory_of :: "octet list \<Rightarrow> memory" where
  "memory_of bs = (\<lambda>i. if i < length bs then bs ! i else 0)"

text \<open>
  The value that the two folding steps at the end of \<open>in_cksum\<close> leave in the low 16 bits
  of the accumulator \<open>S\<close>; \<open>in_cksum\<close> returns its complement.
\<close>

definition cksum_fold :: "int \<Rightarrow> int" where
  "cksum_fold S = (let s = S div 65536 + S mod 65536; s = s + s div 65536 in s mod 65536)"

text \<open>
  The sum of the 16-bit words of a buffer, read in host byte order, as an unbounded
  integer: what the accumulator of \<open>in_cksum\<close> holds after its loop as long as it has not
  wrapped around.
\<close>

fun word_sum :: "bool \<Rightarrow> octet list \<Rightarrow> int" where
  "word_sum be (b0 # b1 # bs) = load16 be b0 b1 + word_sum be bs"
| "word_sum be [b] = load16 be b 0"
| "word_sum be [] = 0"

text \<open>
  The key/value lists of the options of the records in the registry after a call of
  \<open>dhcp_input\<close> that has returned, record by record.
\<close>

definition recorded_options :: "state outcome option \<Rightarrow> kv_node list list option" where
  "recorded_options r =
     (case r of
        Some (Returns st) \<Rightarrow> Some (map dhcp_option (dhcp_server_response_list st))
      | Some Assertion_Failed \<Rightarrow> None
      | None \<Rightarrow> None)"

section \<open>The scenario of the specification\<close>

text \<open>
  The concrete scenario of the specification, used to instantiate the theorems: the
  interface \<open>02:11:22:33:44:55\<close>, an OFFER from \<open>192.168.1.1\<close> with the MAC address
  \<open>aa:bb:cc:dd:ee:ff\<close> that offers \<open>192.168.1.100\<close>, and the transaction ID
  \<open>0x12345678\<close>. The parameters are the flags \<open>--audible\<close> and \<open>--quiet\<close>, the \<open>xid\<close>
  field of the message and the memory from its first option octet on.
\<close>

definition scenario_globals :: "bool \<Rightarrow> bool \<Rightarrow> globals" where
  "scenario_globals audible quiet =
     \<lparr>big_endian = False, dhcp_server_port = 67, dhcp_client_port = 68,
      client_mac_address = [0x02, 0x11, 0x22, 0x33, 0x44, 0x55], interface_name = ''eth0'',
      command_name = ''find-dhcp-servers'', opt_audible = audible, opt_quiet = quiet\<rparr>"

definition scenario_surroundings :: surroundings where
  "scenario_surroundings =
     \<lparr>time_of_day = (1000, 5), calloc_fails = False, aligned_buffer = replicate 260 0,
      malloc_block = (\<lambda>i. 0)\<rparr>"

definition scenario_eframe :: ether_header where
  "scenario_eframe =
     \<lparr>ether_dhost = [0x02, 0x11, 0x22, 0x33, 0x44, 0x55],
      ether_shost = [0xaa, 0xbb, 0xcc, 0xdd, 0xee, 0xff]\<rparr>"

definition scenario_ip_src :: "octet list" where
  "scenario_ip_src = [192, 168, 1, 1]"

definition scenario_offer :: "octet list \<Rightarrow> memory \<Rightarrow> bootp_t" where
  "scenario_offer transaction options =
     \<lparr>opcode = 2, xid = transaction, yiaddr = [192, 168, 1, 100], siaddr = [0, 0, 0, 0],
      giaddr = [0, 0, 0, 0], sname = replicate 64 0, file_name = replicate 128 0,
      magic_cookie = [0x63, 0x82, 0x53, 0x63], vend = options\<rparr>"

definition scenario_options :: "octet list" where
  "scenario_options =
     [53, 1, 2, 1, 4, 255, 255, 255, 0, 3, 4, 192, 168, 1, 1, 51, 4, 0, 1, 0x51, 0x80,
      54, 4, 192, 168, 1, 1, 255]"

text \<open>
  Two option areas of nine octets. In the first one the option \<open>dhcp-message-type\<close> has
  the length 0 and is followed by an option of type 2 with four octets; in the second
  one the domain search option holds a compression pointer to itself.
\<close>

definition scenario_options_empty_type :: "octet list" where
  "scenario_options_empty_type = [53, 0, 2, 4, 0, 0, 0, 0, 255]"

definition scenario_options_self_pointer :: "octet list" where
  "scenario_options_self_pointer = [53, 1, 2, 0, 119, 2, 0xC0, 0x00, 255]"

definition scenario_state :: state where
  "scenario_state =
     \<lparr>dhcp_server_response_list = [], opt_max_response_count = 0, breakloop = False\<rparr>"

text \<open>The state in which the responder of the scenario is already recorded.\<close>

definition scenario_state_recorded :: state where
  "scenario_state_recorded =
     \<lparr>dhcp_server_response_list =
        [\<lparr>stamp = (1000, 5), server_ipv4_address = [192, 168, 1, 1],
          server_mac_address = [0xaa, 0xbb, 0xcc, 0xdd, 0xee, 0xff],
          dhcp_response = [(''server-ipv4-address'', ''192.168.1.1'')],
          dhcp_option = [(''dhcp-message-type'', ''2 (offer)'')]\<rparr>],
      opt_max_response_count = 0, breakloop = False\<rparr>"

text \<open>
  The states that the option loop of \<open>dhcp_input\<close> can be in: the aligned buffer has its
  260 octets, and the bitmap is clear or has only the bit of option 119 set.
\<close>

definition option_state_ok :: "option_state \<Rightarrow> bool" where
  "option_state_ok st =
     (length (option_data st) = 260 \<and>
      (ignore_option st = replicate 32 0 \<or> ignore_option st = (replicate 32 0)[14 := 0x80]))"

section \<open>Lengths of buffers\<close>


lemma length_poke:
  "off + length src \<le> length buf \<Longrightarrow> length (poke buf off src) = length buf"
  by (simp add: poke_def)




section \<open>The checksum round trip\<close>

lemma load16_bytes16: "load16 be (bytes16 be v ! 0) (bytes16 be v ! Suc 0) = uint v"
proof -
  have a: "uint (ucast v :: octet) = uint v mod 256"
    by (simp add: unsigned_ucast_eq take_bit_eq_mod)
  have b: "uint (ucast (drop_bit 8 v) :: octet) = uint v div 256"
  proof -
    have "uint v < 65536" using uint_bounded [of v] by simp
    then have "uint v div 256 < 256" by simp
    moreover have "0 \<le> uint v div 256" by (simp add: pos_imp_zdiv_nonneg_iff)
    ultimately have "(uint v div 256) mod 256 = uint v div 256" by simp
    then show ?thesis
    by (simp add: unsigned_ucast_eq unsigned_drop_bit_eq take_bit_eq_mod drop_bit_eq_div uint_div)
  qed
  show ?thesis by (simp add: load16_def bytes16_def a b)
qed

lemma cksum_fold_props:
  assumes "0 \<le> S" "S < 2147483648"
  shows "0 \<le> cksum_fold S \<and> cksum_fold S \<le> 65535 \<and> 65535 dvd (S - cksum_fold S) \<and>
     (cksum_fold S = 0 \<longleftrightarrow> S = 0)"
proof -
  define q where "q = S div 65536"
  define m where "m = S mod 65536"
  have S: "S = 65536 * q + m" by (simp add: q_def m_def)
  have m: "0 \<le> m" "m < 65536" by (simp_all add: m_def)
  have q: "0 \<le> q" "q < 32768"
  proof -
    show "0 \<le> q" using assms(1) by (simp add: q_def pos_imp_zdiv_nonneg_iff)
    have "S \<le> 2147483647" using assms(2) by simp
    then have "S div 65536 \<le> 2147483647 div 65536" by (rule zdiv_mono1) simp
    then show "q < 32768" by (simp add: q_def)
  qed
  have f: "cksum_fold S = (q + m + (q + m) div 65536) mod 65536"
    by (simp add: cksum_fold_def Let_def q_def m_def)
  show ?thesis
  proof (cases "q + m < 65536")
    case True
    then have "(q + m) div 65536 = 0" using q m by simp
    then have c: "cksum_fold S = q + m" using f True q m by simp
    have d: "S - (q + m) = 65535 * q" by (simp add: S)
    have "65535 dvd (S - cksum_fold S)" unfolding c d by simp
    with c have "cksum_fold S = q + m" "65535 dvd (S - cksum_fold S)" by blast+
    moreover have "q + m = 0 \<longleftrightarrow> S = 0" using q m unfolding S by linarith
    ultimately show ?thesis using q m True by simp
  next
    case False
    then have "(q + m) div 65536 = 1" using q m by simp
    then have "cksum_fold S = (q + m + 1) mod 65536" using f by simp
    also have "\<dots> = q + m - 65535" using False q m by (simp add: mod_pos_geq)
    finally have c: "cksum_fold S = q + m - 65535" .
    have "S - (q + m - 65535) = 65535 * (q + 1)" using S by simp
    then show ?thesis using c q m S False by auto
  qed
qed

lemma cksum_fold_multiple:
  assumes "0 < S" "S < 2147483648" "65535 dvd S"
  shows "cksum_fold S = 65535"
proof -
  from cksum_fold_props [of S] assms
  have p: "0 \<le> cksum_fold S" "cksum_fold S \<le> 65535" "65535 dvd (S - cksum_fold S)" "cksum_fold S \<noteq> 0"
    by auto
  from dvd_diff [OF assms(3) p(3)] have "65535 dvd cksum_fold S" by simp
  then obtain k where k: "cksum_fold S = 65535 * k" by (auto simp: dvd_def)
  with p have "0 < k" "k \<le> 1" by auto
  then have "k = 1" by simp
  with k show ?thesis by simp
qed


lemma load16_bounds: "0 \<le> load16 be b0 b1 \<and> load16 be b0 b1 \<le> 65535"
proof -
  have "uint b0 < 256" "uint b1 < 256" using uint_bounded [of b0] uint_bounded [of b1] by simp_all
  then show ?thesis by (simp add: load16_def)
qed

lemma cksum_sum_word_sum: "cksum_sum be bs s = s + word_of_int (word_sum be bs)"
proof (induction bs arbitrary: s rule: induct_list012)
  case (3 x y zs)
  show ?case by (simp add: "3.IH"(1) wi_hom_add [symmetric])
qed simp_all

lemma sar16_nonneg:
  assumes "0 \<le> k" "k < 2147483648"
  shows "signed_drop_bit 16 (word_of_int k :: 32 word) = word_of_int (k div 65536)"
proof (rule signed_word_eqI)
  have q: "0 \<le> k div 65536" "k div 65536 < 2147483648"
  proof -
    show "0 \<le> k div 65536" using assms(1) by (simp add: pos_imp_zdiv_nonneg_iff)
    have "k \<le> 2147483647" using assms(2) by simp
    then have "k div 65536 \<le> 2147483647 div 65536" by (rule zdiv_mono1) simp
    then show "k div 65536 < 2147483648" by simp
  qed
  have "sint (word_of_int k :: 32 word) = k"
    using assms by (simp add: signed_of_int signed_take_bit_int_eq_self)
  then have "sint (signed_drop_bit 16 (word_of_int k :: 32 word)) = k div 65536"
    by (simp add: sint_signed_drop_bit_eq drop_bit_eq_div)
  moreover have "sint (word_of_int (k div 65536) :: 32 word) = k div 65536"
    using q by (simp add: signed_of_int signed_take_bit_int_eq_self)
  ultimately show "sint (signed_drop_bit 16 (word_of_int k :: 32 word)) =
                   sint (word_of_int (k div 65536) :: 32 word)" by simp
qed

lemma and_ffff_word:
  "(word_of_int k :: 32 word) AND 0xffff = word_of_int (k mod 65536)"
proof -
  have "(0xffff :: 32 word) = mask 16" by (simp add: mask_eq_exp_minus_1)
  then have "(word_of_int k :: 32 word) AND 0xffff = take_bit 16 (word_of_int k)"
    by (simp only: take_bit_eq_mask)
  also have "\<dots> = word_of_int (take_bit 16 k)"
    by (rule bit_word_eqI) (auto simp: bit_simps)
  finally show ?thesis by (simp add: take_bit_eq_mod)
qed

lemma uint_ucast_not:
  "uint (ucast (NOT (word_of_int k :: 32 word)) :: 16 word) = (- k - 1) mod 65536"
proof -
  have "uint (ucast (NOT (word_of_int k :: 32 word)) :: 16 word) =
        take_bit 16 (uint (NOT (word_of_int k :: 32 word)))"
    by (simp add: unsigned_ucast_eq)
  also have "\<dots> = take_bit 16 (take_bit 32 (NOT (take_bit 32 k)))"
    by (simp add: unsigned_not_eq uint_word_of_int_eq)
  also have "\<dots> = take_bit 16 (NOT k)"
    by (rule bit_eqI) (auto simp: bit_simps)
  finally show ?thesis by (simp add: take_bit_eq_mod not_int_def)
qed

lemma in_cksum_fold:
  assumes "0 \<le> word_sum be bs" "word_sum be bs < 2147483648"
  shows "uint (in_cksum be bs) = 65535 - cksum_fold (word_sum be bs)"
proof -
  define S where "S = word_sum be bs"
  define S1 where "S1 = S div 65536 + S mod 65536"
  define S2 where "S2 = S1 + S1 div 65536"
  have S: "0 \<le> S" "S < 2147483648" using assms by (simp_all add: S_def)
  have q: "0 \<le> S div 65536" "S div 65536 < 32768"
  proof -
    show "0 \<le> S div 65536" using S(1) by (simp add: pos_imp_zdiv_nonneg_iff)
    have "S \<le> 2147483647" using S(2) by simp
    then have "S div 65536 \<le> 2147483647 div 65536" by (rule zdiv_mono1) simp
    then show "S div 65536 < 32768" by simp
  qed
  have m: "0 \<le> S mod 65536" "S mod 65536 < 65536" by simp_all
  have S1: "0 \<le> S1" "S1 < 2147483648" using q m by (simp_all add: S1_def)
  have s0: "cksum_sum be bs 0 = word_of_int S"
    by (simp add: cksum_sum_word_sum S_def)
  have s1: "signed_drop_bit 16 (word_of_int S :: 32 word) + (word_of_int S AND 0xffff) =
            word_of_int S1"
    by (simp only: sar16_nonneg [OF S] and_ffff_word wi_hom_add S1_def)
  have s2: "(word_of_int S1 :: 32 word) + signed_drop_bit 16 (word_of_int S1) = word_of_int S2"
    by (simp only: sar16_nonneg [OF S1] wi_hom_add S2_def)
  have "in_cksum be bs = ucast (NOT (word_of_int S2 :: 32 word))"
    by (simp only: in_cksum_def Let_def s0 s1 s2)
  then have "uint (in_cksum be bs) = (- S2 - 1) mod 65536"
    by (simp only: uint_ucast_not)
  also have "\<dots> = 65535 - S2 mod 65536"
  proof -
    define q where "q = S2 div 65536"
    define m where "m = S2 mod 65536"
    have m: "0 \<le> m" "m < 65536" by (simp_all add: m_def)
    have "S2 = 65536 * q + m" by (simp add: q_def m_def)
    then have "- S2 - 1 = (65535 - m) + 65536 * (- q - 1)" by simp
    then have "(- S2 - 1) mod 65536 = (65535 - m) mod 65536"
      by (simp only: mod_mult_self2)
    also have "\<dots> = 65535 - m" using m by simp
    finally show ?thesis by (simp add: m_def)
  qed
  finally show ?thesis by (simp add: cksum_fold_def Let_def S2_def S1_def S_def)
qed


lemma word_sum_append:
  "even (length pre) \<Longrightarrow> word_sum be (pre @ rest) = word_sum be pre + word_sum be rest"
  by (induction be pre rule: word_sum.induct) simp_all

lemma word_sum_bounds:
  "0 \<le> word_sum be bs \<and> word_sum be bs \<le> 65535 * int ((length bs + 1) div 2)"
proof (induction bs rule: induct_list012)
  case (3 b0 b1 bs)
  have "(length (b0 # b1 # bs) + 1) div 2 = Suc ((length bs + 1) div 2)" by simp
  then show ?case using "3.IH"(1) load16_bounds [of be b0 b1] by (simp only: of_nat_Suc) simp
next
  case (2 b)
  then show ?case using load16_bounds [of be b 0] by simp
qed simp

lemma word_sum_poke16:
  assumes "even off" "off + 2 \<le> length B"
  shows "word_sum be (poke B off (bytes16 be v)) =
         word_sum be (take off B) + uint v + word_sum be (drop (off + 2) B)"
proof -
  obtain x y where xy: "bytes16 be v = [x, y]" by (cases be) (simp_all add: bytes16_def)
  with load16_bytes16 [of be v] have l: "load16 be x y = uint v" by simp
  have e: "even (length (take off B))" using assms by simp
  have "word_sum be (poke B off (bytes16 be v)) =
        word_sum be (take off B @ (x # y # drop (off + 2) B))"
    by (simp add: poke_def xy)
  also have "\<dots> = word_sum be (take off B) + word_sum be (x # y # drop (off + 2) B)"
    by (rule word_sum_append [OF e])
  finally show ?thesis by (simp add: l)
qed

lemma word_sum_zeroed_bound:
  assumes "even off" "off + 2 \<le> length B" "length B \<le> 65538"
  shows "word_sum be (take off B) + word_sum be (drop (off + 2) B) \<le> 2147450880"
proof -
  define a where "a = (length (take off B) + 1) div 2"
  define b where "b = (length (drop (off + 2) B) + 1) div 2"
  have "length (take off B) = off" using assms by simp
  then have a: "2 * a = off" using assms(1) by (auto simp: a_def elim: evenE)
  have "length (drop (off + 2) B) = length B - off - 2" by simp
  then have b: "2 * b \<le> length B - off - 1" using assms(2) by (simp add: b_def)
  from a b assms have "a + b \<le> 32768" by linarith
  then have "int a + int b \<le> 32768" by linarith
  then have "65535 * int a + 65535 * int b \<le> 65535 * 32768" by linarith
  moreover have "word_sum be (take off B) \<le> 65535 * int a"
    using word_sum_bounds [of be "take off B"] by (simp add: a_def)
  moreover have "word_sum be (drop (off + 2) B) \<le> 65535 * int b"
    using word_sum_bounds [of be "drop (off + 2) B"] by (simp only: b_def)
  ultimately show ?thesis by linarith
qed

text \<open>
  C6, as amended: Internet-checksum round trip. Let \<open>B\<close> be a buffer of at most 65538
  octets with a 16-bit checksum field at the even offset \<open>off\<close>. The field is zeroed, the
  checksum of the buffer is computed and stored into the field in host byte order, as
  \<open>ip_output\<close> and \<open>udp_output\<close> do; the checksum of the resulting buffer is zero.
  This holds on hosts of either byte order and for buffers of even and of odd length.
\<close>

theorem in_cksum_roundtrip:
  assumes "even off" "off + 2 \<le> length B" "length B \<le> 65538"
  shows "in_cksum be (poke B off (bytes16 be (in_cksum be (poke B off (bytes16 be 0))))) = 0"
proof -
  define B0 where "B0 = poke B off (bytes16 be 0)"
  define c where "c = in_cksum be B0"
  define B1 where "B1 = poke B off (bytes16 be c)"
  define S0 where "S0 = word_sum be B0"
  define S1 where "S1 = word_sum be B1"
  define PQ where "PQ = word_sum be (take off B) + word_sum be (drop (off + 2) B)"
  have PQ: "0 \<le> PQ" "PQ \<le> 2147450880"
    using word_sum_bounds [of be "take off B"] word_sum_bounds [of be "drop (off + 2) B"]
      word_sum_zeroed_bound [OF assms, of be] by (simp_all add: PQ_def)
  have S0PQ: "S0 = PQ"
    using word_sum_poke16 [OF assms(1,2), of be 0] by (simp add: S0_def B0_def PQ_def)
  have S0: "0 \<le> S0" "S0 < 2147483648" using PQ by (simp_all add: S0PQ)
  have c: "uint c = 65535 - cksum_fold S0"
    using in_cksum_fold [of be B0] S0 by (simp add: c_def S0_def)
  have "S1 = PQ + uint c"
    using word_sum_poke16 [OF assms(1,2), of be c] by (simp add: S1_def B1_def PQ_def)
  then have eq: "S1 = 65535 + (S0 - cksum_fold S0)" using c by (simp add: S0PQ)
  from cksum_fold_props [OF S0]
  have p: "0 \<le> cksum_fold S0" "cksum_fold S0 \<le> 65535" "65535 dvd (S0 - cksum_fold S0)"
    "cksum_fold S0 = 0 \<longleftrightarrow> S0 = 0" by simp_all
  have d: "65535 dvd S1" unfolding eq using p(3) by simp
  have pos: "0 < S1"
  proof (cases "S0 = 0")
    case True
    with p(4) eq show ?thesis by simp
  next
    case False
    with S0 have "0 < S0" by simp
    with eq p(2) show ?thesis by simp
  qed
  have lt: "S1 < 2147483648"
  proof (cases "S0 = 0")
    case True
    with p(4) eq show ?thesis by simp
  next
    case False
    with p(1,4) have "1 \<le> cksum_fold S0" by simp
    with eq PQ(2) have u: "S1 \<le> 2147516414" by (simp add: S0PQ)
    from d obtain k where k: "S1 = 65535 * k" by (auto simp: dvd_def)
    with u have "65535 * k < 65535 * 32769" by simp
    then have "k < 32769" by simp
    then have "65535 * k \<le> 65535 * 32768" by simp
    with k show ?thesis by simp
  qed
  have "cksum_fold S1 = 65535" using pos lt d by (rule cksum_fold_multiple)
  moreover have "uint (in_cksum be B1) = 65535 - cksum_fold S1"
    using in_cksum_fold [of be B1] pos lt by (simp add: S1_def)
  ultimately have "uint (in_cksum be B1) = 0" by simp
  then show ?thesis by (simp add: B1_def c_def B0_def uint_0_iff)
qed

theorem in_cksum_roundtrip_witness:
  "even (2::nat) \<and> 2 + 2 \<le> length [0x45, 0x10, 0x01, 0x30, 0xff :: octet] \<and>
   length [0x45, 0x10, 0x01, 0x30, 0xff :: octet] \<le> 65538 \<and>
   in_cksum False (poke [0x45, 0x10, 0x01, 0x30, 0xff] 2
     (bytes16 False (in_cksum False (poke [0x45, 0x10, 0x01, 0x30, 0xff] 2 (bytes16 False 0))))) = 0"
  using in_cksum_roundtrip [of 2 "[0x45, 0x10, 0x01, 0x30, 0xff]" False] by simp

lemma word_sum_replicate_ff:
  "word_sum False (replicate (2 * k) 0xff) = 65535 * int k"
  "word_sum False (replicate (2 * k + 1) 0xff) = 65535 * int k + 255"
  by (induction k) (simp_all add: load16_def)

lemma word_sum_65537: "word_sum False (replicate 65537 0xff) = 2147451135"
  using word_sum_replicate_ff(2) [of 32768] by simp

lemma in_cksum_long_buffer_zeroed:
  "in_cksum False (poke (replicate 65539 0xff) 0 (bytes16 False 0)) = 65280"
  by (simp add: in_cksum_def poke_def bytes16_def cksum_sum_word_sum load16_def word_sum_65537)

lemma in_cksum_long_buffer:
  "in_cksum False (poke (replicate 65539 0xff) 0
     (bytes16 False (in_cksum False (poke (replicate 65539 0xff) 0 (bytes16 False 0))))) = 1"
  unfolding in_cksum_long_buffer_zeroed
  by (simp add: in_cksum_def poke_def bytes16_def cksum_sum_word_sum load16_def word_sum_65537)

lemma in_cksum_odd_offset:
  "in_cksum False (poke [0, 0, 0, 1] 1
     (bytes16 False (in_cksum False (poke [0, 0, 0, 1] 1 (bytes16 False 0))))) = 65280"
  by (simp add: in_cksum_def poke_def bytes16_def load16_def)

text \<open>
  C6 as stated fails. On a little-endian host, for the buffer \<open>00 00 00 01\<close> with the
  checksum field at the odd offset 1, the checksum recomputed after the round trip is
  \<open>0xFF00\<close>: the field then lies across two of the 16-bit words that \<open>in_cksum\<close> adds.
  For the buffer of 65539 octets \<open>FF\<close> with the field at offset 0 it is 1: the sum of the
  words exceeds \<open>2 ^ 31 - 1\<close> once the field holds the checksum, and the accumulator wraps
  around.
\<close>

theorem in_cksum_roundtrip_counterexample:
  "in_cksum False (poke [0, 0, 0, 1] 1
     (bytes16 False (in_cksum False (poke [0, 0, 0, 1] 1 (bytes16 False 0))))) = 65280 \<and>
   in_cksum False (poke (replicate 65539 0xff) 0
     (bytes16 False (in_cksum False (poke (replicate 65539 0xff) 0 (bytes16 False 0))))) = 1"
  using in_cksum_odd_offset in_cksum_long_buffer by (rule conjI)


section \<open>The size of the DISCOVER frame\<close>















section \<open>Frames that are dropped, duplicates and the bell\<close>

lemma dhcp_input_rejected:
  assumes "dhcp_input_rejects dhcp T len"
  shows "dhcp_input g env eframe ip_src dhcp T len st = ([], Some (Returns st))"
  unfolding dhcp_input_def Let_def using assms by (simp only: if_True)

lemma find_dhcp_server_data_present:
  assumes "r \<in> set registry"
    and "take 4 (server_ipv4_address r) = take 4 ipv4"
    and "take 6 (server_mac_address r) = take 6 mac"
  shows "find_dhcp_server_data registry ipv4 mac \<noteq> None"
  using assms by (auto simp: find_dhcp_server_data_def find_None_iff)

lemma dhcp_input_duplicate:
  assumes "\<not> dhcp_input_rejects dhcp T len"
    and "find_dhcp_server_data (dhcp_server_response_list st)
           (server_ipv4_address_of (ntohl ip_src)) (ether_shost eframe) = Some r"
  shows "dhcp_input g env eframe ip_src dhcp T len st =
         ((if opt_audible g then [CHR 0x07] else []) @
          (if opt_quiet g then []
           else duplicate_message g (server_ipv4_address_of (ntohl ip_src)) (ether_shost eframe)),
          Some (Returns st))"
  unfolding dhcp_input_def Let_def using assms by simp

lemma dhcp_input_written:
  assumes "\<not> dhcp_input_rejects dhcp T len"
  shows "fst (dhcp_input g env eframe ip_src dhcp T len st) =
         (if opt_audible g then [CHR 0x07] else []) @
         (case find_dhcp_server_data (dhcp_server_response_list st)
                 (server_ipv4_address_of (ntohl ip_src)) (ether_shost eframe) of
            Some found \<Rightarrow>
              if opt_quiet g then []
              else duplicate_message g (server_ipv4_address_of (ntohl ip_src)) (ether_shost eframe)
          | None \<Rightarrow>
              if calloc_fails env \<and> \<not> opt_quiet g
              then no_memory_message g (server_ipv4_address_of (ntohl ip_src)) (ether_shost eframe)
              else [])"
  using assms unfolding dhcp_input_def Let_def create_dhcp_server_data_def
  by (simp split: option.splits)

lemma dhcp_input_new:
  assumes "\<not> dhcp_input_rejects dhcp T len"
    and "find_dhcp_server_data (dhcp_server_response_list st)
           (server_ipv4_address_of (ntohl ip_src)) (ether_shost eframe) = None"
    and "\<not> calloc_fails env"
  shows "snd (dhcp_input g env eframe ip_src dhcp T len st) =
         (case dhcp_input_loop (malloc_block env) (vend dhcp) (len - 240)
                 \<lparr>option_data = aligned_buffer env, ignore_option = replicate 32 0,
                  server_data = dhcp_input_response g eframe
                    (server_ipv4_address_of (ntohl ip_src)) dhcp
                    \<lparr>stamp = time_of_day env,
                     server_ipv4_address = take 4 (server_ipv4_address_of (ntohl ip_src)),
                     server_mac_address = take 6 (ether_shost eframe),
                     dhcp_response = [], dhcp_option = []\<rparr>\<rparr>
                 (dhcp_input_scan (vend dhcp) (len - 240) 0) of
            None \<Rightarrow> None
          | Some Assertion_Failed \<Rightarrow> Some Assertion_Failed
          | Some (Returns ost) \<Rightarrow>
              Some (Returns
                (if opt_max_response_count st > 0
                 then st\<lparr>dhcp_server_response_list :=
                            dhcp_server_response_list st @ [server_data ost],
                          opt_max_response_count := opt_max_response_count st - 1,
                          breakloop := (if opt_max_response_count st - 1 = 0 then True
                                        else breakloop st)\<rparr>
                 else st\<lparr>dhcp_server_response_list :=
                            dhcp_server_response_list st @ [server_data ost]\<rparr>)))"
  using assms unfolding dhcp_input_def Let_def create_dhcp_server_data_def
  by (simp add: sizeof_bootp_def add_node_to_list_tail_def split: option.splits outcome.splits)

lemma takeWhile_nul: "takeWhile (\<lambda>b. b \<noteq> 0) (bs @ (0 :: octet) # rest) = takeWhile (\<lambda>b. b \<noteq> 0) bs"
  by (induction bs) auto

lemma fmt_s_copy:
  assumes "length copy = n" "n < length od"
  shows "fmt_s (poke (poke od 0 copy) n [0]) = map char_of_octet (takeWhile (\<lambda>b. b \<noteq> 0) copy)"
proof -
  have "poke od 0 copy = copy @ drop n od" using assms by (simp add: poke_def)
  then have "poke (poke od 0 copy) n [0] = copy @ 0 # drop (Suc n) (copy @ drop n od)"
    using assms by (simp add: poke_def)
  then show ?thesis by (simp only: fmt_s_def takeWhile_nul)
qed

lemma length_mem_read: "length (mem_read m pos n) = n"
  by (simp add: mem_read_def)

lemma unat_octet_less: "unat (b :: octet) < 256"
  using unsigned_less [of b, where ?'a = nat] by simp

lemma ignore_clear:
  assumes "ig = replicate 32 0 \<or> ig = (replicate 32 0)[14 := 0x80]" "t \<noteq> (119 :: octet)"
  shows "(ig ! (unat t div 8)) AND push_bit (unat t mod 8) (1 :: octet) = 0"
proof (cases "unat t div 8 = 14")
  case False
  have "unat t div 8 < 32" using unat_octet_less [of t] by simp
  with False assms(1) show ?thesis by auto
next
  case True
  then have "unat t mod 8 \<noteq> 7"
  proof -
    have "unat t = 8 * (unat t div 8) + unat t mod 8" by simp
    with True have "unat t = 112 + unat t mod 8" by simp
    moreover have "unat t \<noteq> 119" using assms(2) word_unat_eq_iff [of t 119] by simp
    ultimately show ?thesis by simp
  qed
  moreover have "unat t mod 8 < 8" by simp
  ultimately have "unat t mod 8 \<in> {0, 1, 2, 3, 4, 5, 6}" by auto
  then have "(0x80 :: octet) AND push_bit (unat t mod 8) 1 = 0" by auto
  then show ?thesis using True assms(1) by auto
qed


lemma copy_option_data_simps:
  "option_data (copy_option_data v st pos n) =
     poke (poke (option_data st) 0 (mem_read v pos n)) n [0]"
  "ignore_option (copy_option_data v st pos n) = ignore_option st"
  "server_data (copy_option_data v st pos n) = server_data st"
  by (simp_all add: copy_option_data_def)

lemma dhcp_input_switch_raw_string:
  "dhcp_input_switch fresh v l st 15 n =
     emit st (add_dhcp_option (server_data st) ''domain-name'' (fmt_s (option_data st)))"
  "dhcp_input_switch fresh v l st 56 n =
     emit st (add_dhcp_option (server_data st) ''message'' (fmt_s (option_data st)))"
  "dhcp_input_switch fresh v l st 95 n =
     emit st (add_dhcp_option (server_data st) ''ldap-url'' (fmt_s (option_data st)))"
  "dhcp_input_switch fresh v l st 252 n =
     emit st (add_dhcp_option (server_data st) ''web-proxy-auto-discovery'' (fmt_s (option_data st)))"
  "dhcp_input_switch fresh v l st 47 n =
     emit st (add_dhcp_option (server_data st) ''netbios-over-tcp-ip-scope'' (fmt_s (option_data st)))"
  unfolding dhcp_input_switch_def by simp_all

lemma dhcp_input_option_raw_string:
  assumes ok: "option_state_ok st"
    and t: "(t, k) \<in> {(15, ''domain-name''), (56, ''message''), (95, ''ldap-url''),
                      (252, ''web-proxy-auto-discovery''), (47, ''netbios-over-tcp-ip-scope'')}"
  shows "dhcp_input_option fresh v l st (t, n, pos) =
         Some (Returns ((copy_option_data v st pos (unat n))
                 \<lparr>server_data :=
                    add_dhcp_option (server_data st) k
                      (map char_of_octet
                         (takeWhile (\<lambda>b. b \<noteq> 0) (mem_read v pos (unat n))))\<rparr>))"
proof -
  define st1 where "st1 = copy_option_data v st pos (unat n)"
  from t have td: "(t = 15 \<and> k = ''domain-name'') \<or> (t = 56 \<and> k = ''message'') \<or>
     (t = 95 \<and> k = ''ldap-url'') \<or> (t = 252 \<and> k = ''web-proxy-auto-discovery'') \<or>
     (t = 47 \<and> k = ''netbios-over-tcp-ip-scope'')"
    by (simp only: insert_iff empty_iff prod.inject simp_thms)
  then have "t \<in> {15, 56, 95, 252, 47}" by blast
  then have ne: "t \<noteq> 119" by auto
  have "(ignore_option st ! (unat t div 8)) AND push_bit (unat t mod 8) 1 = 0"
    using ok ne unfolding option_state_ok_def by (intro ignore_clear) auto
  then have ni: "\<not> option_ignored st1 t"
    by (simp add: option_ignored_def st1_def copy_option_data_simps)
  have "unat n < length (option_data st)"
    using ok unat_octet_less [of n] by (simp add: option_state_ok_def)
  then have "fmt_s (poke (poke (option_data st) 0 (mem_read v pos (unat n))) (unat n) [0]) =
           map char_of_octet (takeWhile (\<lambda>b. b \<noteq> 0) (mem_read v pos (unat n)))"
    by (intro fmt_s_copy length_mem_read)
  then have f: "fmt_s (option_data st1) =
           map char_of_octet (takeWhile (\<lambda>b. b \<noteq> 0) (mem_read v pos (unat n)))"
    by (simp add: st1_def copy_option_data_simps)
  have sd: "server_data st1 = server_data st"
    by (simp add: st1_def copy_option_data_simps)
  have sw: "dhcp_input_switch fresh v l st1 t (unat n) =
            emit st1 (add_dhcp_option (server_data st1) k (fmt_s (option_data st1)))"
    using td by (elim disjE conjE) (simp_all only: dhcp_input_switch_raw_string)
  have "dhcp_input_option fresh v l st (t, n, pos) = dhcp_input_switch fresh v l st1 t (unat n)"
    using ni by (simp add: dhcp_input_option_def st1_def)
  also have "\<dots> = emit st1 (add_dhcp_option (server_data st1) k (fmt_s (option_data st1)))"
    by (rule sw)
  also have "\<dots> = Some (Returns (st1\<lparr>server_data :=
                    add_dhcp_option (server_data st) k
                      (map char_of_octet
                         (takeWhile (\<lambda>b. b \<noteq> 0) (mem_read v pos (unat n))))\<rparr>))"
    by (simp only: emit_def f sd)
  finally show ?thesis unfolding st1_def .
qed

lemma raw_string_length:
  "length (map char_of_octet (takeWhile (\<lambda>b. b \<noteq> 0) (mem_read v pos (unat n)))) \<le> unat n"
  using length_takeWhile_le [of "\<lambda>b. b \<noteq> 0" "mem_read v pos (unat n)"]
  by (simp add: length_mem_read)

lemma dhcp_input_switch_57_short:
  assumes "n < 4"
  shows "dhcp_input_switch fresh v l st 57 n = Some (Returns st)"
  using assms unfolding dhcp_input_switch_def by (simp add: emit_def)

lemma dhcp_input_option_57_short:
  assumes "unat n < 4"
  shows "dhcp_input_option fresh v l st (57, n, pos) =
         Some (Returns (copy_option_data v st pos (unat n)))"
  using assms by (simp add: dhcp_input_option_def dhcp_input_switch_57_short)

lemma not_ignored:
  assumes "ignore_option st = replicate 32 0"
  shows "\<not> option_ignored st t"
proof -
  have "unat t div 8 < 32" using unat_octet_less [of t] by simp
  then show ?thesis using assms by (simp add: option_ignored_def)
qed

lemma copy_option_data_first:
  assumes "n < length (option_data st)"
  shows "option_data (copy_option_data v st pos n) ! 0 = (if n = 0 then 0 else v pos)"
proof -
  have "poke (option_data st) 0 (mem_read v pos n) = mem_read v pos n @ drop n (option_data st)"
    by (simp add: poke_def length_mem_read)
  then have "poke (poke (option_data st) 0 (mem_read v pos n)) n [0] =
             mem_read v pos n @ 0 # drop (Suc n) (mem_read v pos n @ drop n (option_data st))"
    using assms by (simp add: poke_def length_mem_read)
  moreover have "n \<noteq> 0 \<Longrightarrow> mem_read v pos n ! 0 = v pos"
    by (simp add: mem_read_def)
  ultimately show ?thesis
    by (cases "n = 0") (simp_all add: copy_option_data_simps nth_append length_mem_read)
qed

lemma copy_option_data_length:
  assumes "length (option_data st) = 260"
  shows "length (option_data (copy_option_data v st pos (unat (n :: octet)))) = 260"
proof -
  have "unat n < 256" by (rule unat_octet_less)
  then show ?thesis
    using assms by (simp add: copy_option_data_simps length_poke length_mem_read)
qed

lemma dhcp_input_switch_53:
  "dhcp_input_switch fresh v l st 53 n =
     emit st (add_dhcp_option (server_data st) ''dhcp-message-type''
       (if 1 \<le> option_data st ! 0 \<and> option_data st ! 0 \<le> 8
        then fmt_u (unat (option_data st ! 0)) @ '' ('' @
             message_types ! (unat (option_data st ! 0) - 1) @ '')''
        else fmt_u (unat (option_data st ! 0))))"
  unfolding dhcp_input_switch_def by simp

lemma dhcp_input_switch_2:
  "dhcp_input_switch fresh v l st 2 n =
     emit st (add_dhcp_option (server_data st) ''option-2'' (fmt_u n @ '' data bytes''))"
  unfolding dhcp_input_switch_def by (simp add: fmt_u.simps digit_char_def)

lemma dhcp_input_option_53:
  assumes "length (option_data st) = 260" "ignore_option st = replicate 32 0"
  shows "\<exists>st'. dhcp_input_option fresh v l st (53, n, pos) = Some (Returns st') \<and>
           length (option_data st') = 260 \<and> ignore_option st' = replicate 32 0 \<and>
           server_data st' =
             add_dhcp_option (server_data st) ''dhcp-message-type''
               (if 1 \<le> (if n = 0 then 0 else v pos) \<and> (if n = 0 then 0 else v pos) \<le> 8
                then fmt_u (unat (if n = 0 then 0 else v pos)) @ '' ('' @
                     message_types ! (unat (if n = 0 then 0 else v pos) - 1) @ '')''
                else fmt_u (unat (if n = 0 then 0 else v pos)))"
proof -
  define st1 where "st1 = copy_option_data v st pos (unat n)"
  have l: "length (option_data st1) = 260"
    unfolding st1_def using assms(1) by (rule copy_option_data_length)
  have i: "ignore_option st1 = replicate 32 0"
    by (simp add: st1_def copy_option_data_simps assms(2))
  have "unat n < length (option_data st)" using unat_octet_less [of n] assms(1) by simp
  then have "option_data st1 ! 0 = (if unat n = 0 then 0 else v pos)"
    unfolding st1_def by (rule copy_option_data_first)
  then have f: "option_data st1 ! 0 = (if n = 0 then 0 else v pos)"
    by (simp add: unat_eq_0)
  have sd: "server_data st1 = server_data st" by (simp add: st1_def copy_option_data_simps)
  have "dhcp_input_option fresh v l st (53, n, pos) = dhcp_input_switch fresh v l st1 53 (unat n)"
    using not_ignored [OF i, of 53] by (simp add: dhcp_input_option_def st1_def)
  then show ?thesis
    by (simp only: dhcp_input_switch_53 emit_def f sd) (simp add: l i)
qed

lemma dhcp_input_option_2:
  assumes "length (option_data st) = 260" "ignore_option st = replicate 32 0"
  shows "\<exists>st'. dhcp_input_option fresh v l st (2, n, pos) = Some (Returns st') \<and>
           length (option_data st') = 260 \<and> ignore_option st' = replicate 32 0 \<and>
           server_data st' =
             add_dhcp_option (server_data st) ''option-2'' (fmt_u (unat n) @ '' data bytes'')"
proof -
  define st1 where "st1 = copy_option_data v st pos (unat n)"
  have l: "length (option_data st1) = 260"
    unfolding st1_def using assms(1) by (rule copy_option_data_length)
  have i: "ignore_option st1 = replicate 32 0"
    by (simp add: st1_def copy_option_data_simps assms(2))
  have sd: "server_data st1 = server_data st" by (simp add: st1_def copy_option_data_simps)
  have "dhcp_input_option fresh v l st (2, n, pos) = dhcp_input_switch fresh v l st1 2 (unat n)"
    using not_ignored [OF i, of 2] by (simp add: dhcp_input_option_def st1_def)
  then show ?thesis
    by (simp only: dhcp_input_switch_2 emit_def sd) (simp add: l i)
qed

lemma dhcp_input_option_119_never_returns:
  assumes "ignore_option st = replicate 32 0"
    and "decode_domain_search fresh v l 119 1500 = None"
  shows "dhcp_input_option fresh v l st (119, n, pos) = None"
proof -
  define st1 where "st1 = copy_option_data v st pos (unat n)"
  have i: "ignore_option st1 = replicate 32 0"
    by (simp add: st1_def copy_option_data_simps assms(1))
  have "dhcp_input_option fresh v l st (119, n, pos) =
        dhcp_input_switch fresh v l st1 119 (unat n)"
    using not_ignored [OF i, of 119] by (simp add: dhcp_input_option_def st1_def)
  also have "\<dots> = None" unfolding dhcp_input_switch_def using assms(2) by simp
  finally show ?thesis .
qed

lemma dhcp_option_dhcp_input_response:
  "dhcp_option (dhcp_input_response g eframe ipv4 dhcp data) = dhcp_option data"
  by (simp add: dhcp_input_response_def Let_def add_dhcp_response_def)

lemma dhcp_input_loop_53_2:
  assumes "length od = 260"
  shows "\<exists>ost. dhcp_input_loop fresh v l
                 \<lparr>option_data = od, ignore_option = replicate 32 0, server_data = d\<rparr>
                 [(53, 0, p), (2, n, q)] = Some (Returns ost) \<and>
               dhcp_option (server_data ost) =
                 dhcp_option d @ [(''dhcp-message-type'', ''0''),
                                  (''option-2'', fmt_u (unat n) @ '' data bytes'')]"
proof -
  define st0 where "st0 = \<lparr>option_data = od, ignore_option = replicate 32 0, server_data = d\<rparr>"
  have st0: "length (option_data st0) = 260" "ignore_option st0 = replicate 32 0"
    using assms by (simp_all add: st0_def)
  from dhcp_input_option_53 [OF st0, of fresh v l 0 p]
  obtain st1 where s1: "dhcp_input_option fresh v l st0 (53, 0, p) = Some (Returns st1)"
    and st1: "length (option_data st1) = 260" "ignore_option st1 = replicate 32 0"
    and d1: "server_data st1 = add_dhcp_option (server_data st0) ''dhcp-message-type'' ''0''"
    by (auto simp: fmt_u.simps digit_char_def)
  from dhcp_input_option_2 [OF st1, of fresh v l n q]
  obtain st2 where s2: "dhcp_input_option fresh v l st1 (2, n, q) = Some (Returns st2)"
    and d2: "server_data st2 =
             add_dhcp_option (server_data st1) ''option-2'' (fmt_u (unat n) @ '' data bytes'')"
    by auto
  have "dhcp_input_loop fresh v l st0 [(53, 0, p), (2, n, q)] = Some (Returns st2)"
    by (simp add: s1 s2)
  moreover have "dhcp_option (server_data st2) =
                 dhcp_option d @ [(''dhcp-message-type'', ''0''),
                                  (''option-2'', fmt_u (unat n) @ '' data bytes'')]"
    by (simp add: d2 d1 add_dhcp_option_def add_node_to_list_tail_def st0_def)
  ultimately show ?thesis unfolding st0_def by blast
qed

lemma dhcp_input_loop_53_119_never_returns:
  assumes "length od = 260" "decode_domain_search fresh v l 119 1500 = None"
  shows "dhcp_input_loop fresh v l
           \<lparr>option_data = od, ignore_option = replicate 32 0, server_data = d\<rparr>
           [(53, n, p), (119, m, q)] = None"
proof -
  define st0 where "st0 = \<lparr>option_data = od, ignore_option = replicate 32 0, server_data = d\<rparr>"
  have st0: "length (option_data st0) = 260" "ignore_option st0 = replicate 32 0"
    using assms by (simp_all add: st0_def)
  from dhcp_input_option_53 [OF st0, of fresh v l n p]
  obtain st1 where s1: "dhcp_input_option fresh v l st0 (53, n, p) = Some (Returns st1)"
    and st1: "ignore_option st1 = replicate 32 0"
    by blast
  have "dhcp_input_option fresh v l st1 (119, m, q) = None"
    using st1 assms(2) by (rule dhcp_input_option_119_never_returns)
  then have "dhcp_input_loop fresh v l st0 [(53, n, p), (119, m, q)] = None"
    by (simp add: s1)
  then show ?thesis unfolding st0_def .
qed

section \<open>A compression pointer to itself\<close>

lemma pointer_octet_and: "(0xC0 :: octet) AND 0xC0 = 0xC0" by simp
lemma pointer_octet_offset: "unat ((0xC0 :: octet) AND NOT 0xC0) = 0" by simp

lemma decode_domain_name_loop_self_pointer: "decode_domain_name_loop [0xC0, 0x00] 2 m 0 out = None"
proof (cases "decode_domain_name_loop [0xC0, 0x00] 2 m 0 out")
  case None
  then show ?thesis .
next
  case (Some y)
  have "\<not> ([0xC0, 0x00] = [0xC0, 0x00 :: octet] \<and> (2::nat) = 2 \<and> (0::nat) = 0)"
  proof (rule decode_domain_name_loop.raw_induct
      [where P = "\<lambda>b n m i out y. \<not> (b = [0xC0, 0x00] \<and> n = 2 \<and> i = 0)", OF _ Some])
    fix f :: "octet list \<Rightarrow> nat \<Rightarrow> nat \<Rightarrow> nat \<Rightarrow> octet list \<Rightarrow> (nat \<times> octet list) outcome option"
    fix b n m i out y
    assume IH: "\<And>b n m i out y. f b n m i out = Some y \<Longrightarrow> \<not> (b = [0xC0, 0x00] \<and> n = 2 \<and> i = 0)"
    assume body: "(if i < n \<and> b ! i \<noteq> 0 then
        if (b ! i) AND 0xc0 = 0 then
          if i + 1 + unat (b ! i) > n
          then Some (Returns (0, out))
          else f b n m (i + 1 + unat (b ! i))
                 (if length out + unat (b ! i) + 1 < m
                  then (if length out > 0 then out @ [0x2e] else out) @
                       take (unat (b ! i)) (drop (i + 1) b)
                  else out)
        else if (b ! i) AND 0xc0 = 0xc0 then
          if i + 1 = n then Some (Returns (0, out))
          else if unat ((b ! i) AND NOT 0xc0) * 256 + unat (b ! (i + 1)) \<ge> n
          then Some (Returns (0, out))
          else f b n m (unat ((b ! i) AND NOT 0xc0) * 256 + unat (b ! (i + 1))) out
        else Some (Returns (0, out))
      else if \<not> length out < m then Some Assertion_Failed
      else Some (Returns (length out, out))) = Some y"
    show "\<not> (b = [0xC0, 0x00] \<and> n = 2 \<and> i = 0)"
    proof
      assume e: "b = [0xC0, 0x00] \<and> n = 2 \<and> i = 0"
      with body have "f [0xC0, 0x00] 2 m 0 out = Some y" by (simp add: pointer_octet_and pointer_octet_offset)
      with IH show False by blast
    qed
  qed
  then show ?thesis by simp
qed

lemma aggregate_self_pointer:
  "fill_aggregate_buffer_from_option fresh (memory_of scenario_options_self_pointer) 9 119 =
   Returns (Some [0xC0, 0x00])"
  by (simp add: fill_aggregate_buffer_from_option_def aggregate_required_size.simps
      aggregate_copy.simps memory_of_def mem_read_def upt_rec scenario_options_self_pointer_def)

lemma size_self_pointer: "get_domain_name_size [0xC0, 0x00] 2 = 2"
  by (simp add: get_domain_name_size_def get_domain_name_size_loop.simps)

lemma decode_domain_search_never_returns:
  "decode_domain_search fresh (memory_of scenario_options_self_pointer) 9 119 1500 = None"
proof -
  have "decode_domain_search_loop [0xC0, 0x00] 2 1500 0 [] = None"
    by (subst decode_domain_search_loop.simps)
       (simp add: size_self_pointer decode_domain_name_def decode_domain_name_loop_self_pointer)
  moreover have "length [0xC0, 0x00 :: octet] = 2" by simp
  ultimately have
    "decode_domain_search_loop [0xC0, 0x00] (length [0xC0, 0x00 :: octet]) 1500 0 [] = None"
    by (simp only:)
  then show ?thesis
    by (simp only: decode_domain_search_def aggregate_self_pointer) simp
qed

section \<open>The claims about incoming responses\<close>

lemma scenario_message_type: "get_dhcp_message_type (memory_of scenario_options) 28 = 2"
  by (simp add: get_dhcp_message_type_def get_dhcp_message_type_loop.simps memory_of_def
      scenario_options_def)

lemma scenario_accepted:
  "\<not> dhcp_input_rejects (scenario_offer [0x12, 0x34, 0x56, 0x78] (memory_of scenario_options))
       0x12345678 268"
  using scenario_message_type
  by (simp add: dhcp_input_rejects_def scenario_offer_def ntohl_def BOOTREPLY_def
      DHCP_MAGIC_COOKIE_def MESSAGE_TYPE_OFFER_def sizeof_bootp_def)

lemma scenario_empty_type_message_type:
  "get_dhcp_message_type (memory_of scenario_options_empty_type) 9 = 2"
  by (simp add: get_dhcp_message_type_def get_dhcp_message_type_loop.simps memory_of_def
      scenario_options_empty_type_def)

lemma scenario_empty_type_scan:
  "dhcp_input_scan (memory_of scenario_options_empty_type) 9 0 = [(53, 0, 2), (2, 4, 4)]"
  by (simp add: dhcp_input_scan.simps memory_of_def scenario_options_empty_type_def)

lemma scenario_empty_type_accepted:
  "\<not> dhcp_input_rejects
       (scenario_offer [0x12, 0x34, 0x56, 0x78] (memory_of scenario_options_empty_type))
       0x12345678 249"
  using scenario_empty_type_message_type
  by (simp add: dhcp_input_rejects_def scenario_offer_def ntohl_def BOOTREPLY_def
      DHCP_MAGIC_COOKIE_def MESSAGE_TYPE_OFFER_def sizeof_bootp_def)

lemma scenario_self_pointer_scan:
  "dhcp_input_scan (memory_of scenario_options_self_pointer) 9 0 = [(53, 1, 2), (119, 2, 6)]"
  by (simp add: dhcp_input_scan.simps memory_of_def scenario_options_self_pointer_def)

lemma scenario_self_pointer_accepted:
  "\<not> dhcp_input_rejects
       (scenario_offer [0x12, 0x34, 0x56, 0x78] (memory_of scenario_options_self_pointer))
       0x12345678 249"
  by (simp add: dhcp_input_rejects_def scenario_offer_def ntohl_def BOOTREPLY_def
      DHCP_MAGIC_COOKIE_def MESSAGE_TYPE_OFFER_def sizeof_bootp_def
      get_dhcp_message_type_def get_dhcp_message_type_loop.simps memory_of_def
      scenario_options_self_pointer_def)

lemma scenario_server_address:
  "server_ipv4_address_of (ntohl scenario_ip_src) = [192, 168, 1, 1]"
  by (simp add: server_ipv4_address_of_def ntohl_def scenario_ip_src_def)

lemma scenario_recorded:
  "find_dhcp_server_data (dhcp_server_response_list scenario_state_recorded)
     (server_ipv4_address_of (ntohl scenario_ip_src)) (ether_shost scenario_eframe) =
   Some (hd (dhcp_server_response_list scenario_state_recorded))"
  by (simp add: scenario_server_address find_dhcp_server_data_def scenario_state_recorded_def
      scenario_eframe_def)

lemma scenario_not_recorded:
  "find_dhcp_server_data (dhcp_server_response_list scenario_state) ipv4 mac = None"
  by (simp add: find_dhcp_server_data_def scenario_state_def)

lemma scenario_duplicate_line:
  "duplicate_message (scenario_globals audible quiet)
     (server_ipv4_address_of (ntohl scenario_ip_src)) (ether_shost scenario_eframe) =
   ''find-dhcp-servers: Duplicate response from DHCP server at IPv4 address 192.168.1.1/MAC address aa:bb:cc:dd:ee:ff ignored.'' @ [CHR 0x0A]"
  by (simp add: scenario_server_address duplicate_message_def scenario_globals_def
      scenario_eframe_def fmt_octets4_def fmt_ipv4_def fmt_mac_def fmt_02x_def fmt_u.simps
      digit_char_def)

text \<open>
  C5 fails for a frame whose option \<open>dhcp-message-type\<close> has no value octet. For the option
  area \<open>35 00 02 04 00 00 00 00 FF\<close>, \<open>get_dhcp_message_type\<close> does not test the length 0
  and returns the octet behind the header of the option, 2, which is the type octet of the
  next option. So the frame passes the acceptance test as an OFFER although its options
  carry no message type OFFER: with \<open>--audible\<close> the bell character is written, and a
  record is added to the empty registry, whose options are \<open>dhcp-message-type=0\<close>, as the
  option loop decodes the same option, and \<open>option-2=4 data bytes\<close>.
\<close>

theorem dhcp_input_accepts_empty_message_type:
  "get_dhcp_message_type (memory_of scenario_options_empty_type) 9 = 2 \<and>
   dhcp_input_scan (memory_of scenario_options_empty_type) 9 0 = [(53, 0, 2), (2, 4, 4)] \<and>
   recorded_options (Some (Returns scenario_state)) = Some [] \<and>
   fst (dhcp_input (scenario_globals True False) scenario_surroundings scenario_eframe
          scenario_ip_src
          (scenario_offer [0x12, 0x34, 0x56, 0x78] (memory_of scenario_options_empty_type))
          0x12345678 249 scenario_state) = [CHR 0x07] \<and>
   recorded_options
     (snd (dhcp_input (scenario_globals True False) scenario_surroundings scenario_eframe
             scenario_ip_src
             (scenario_offer [0x12, 0x34, 0x56, 0x78] (memory_of scenario_options_empty_type))
             0x12345678 249 scenario_state)) =
   Some [[(''dhcp-message-type'', ''0''), (''option-2'', ''4 data bytes'')]]"
proof -
  define dhcp where
    "dhcp = scenario_offer [0x12, 0x34, 0x56, 0x78] (memory_of scenario_options_empty_type)"
  have v: "vend dhcp = memory_of scenario_options_empty_type"
    by (simp add: dhcp_def scenario_offer_def)
  have acc: "\<not> dhcp_input_rejects dhcp 0x12345678 249"
    unfolding dhcp_def by (rule scenario_empty_type_accepted)
  have nf: "find_dhcp_server_data (dhcp_server_response_list scenario_state)
              (server_ipv4_address_of (ntohl scenario_ip_src)) (ether_shost scenario_eframe) =
            None"
    by (rule scenario_not_recorded)
  have env: "\<not> calloc_fails scenario_surroundings"
    "length (aligned_buffer scenario_surroundings) = 260"
    by (simp_all add: scenario_surroundings_def)
  have w: "fst (dhcp_input (scenario_globals True False) scenario_surroundings scenario_eframe
                  scenario_ip_src dhcp 0x12345678 249 scenario_state) = [CHR 0x07]"
    using dhcp_input_written [OF acc, of "scenario_globals True False" scenario_surroundings
        scenario_eframe scenario_ip_src scenario_state] env(1)
    by (simp add: nf scenario_globals_def)
  have nine: "(249 :: int) - 240 = 9" by simp
  define d0 where
    "d0 = dhcp_input_response (scenario_globals True False) scenario_eframe
            (server_ipv4_address_of (ntohl scenario_ip_src)) dhcp
            \<lparr>stamp = time_of_day scenario_surroundings,
             server_ipv4_address = take 4 (server_ipv4_address_of (ntohl scenario_ip_src)),
             server_mac_address = take 6 (ether_shost scenario_eframe),
             dhcp_response = [], dhcp_option = []\<rparr>"
  have d0: "dhcp_option d0 = []" by (simp add: d0_def dhcp_option_dhcp_input_response)
  from dhcp_input_loop_53_2 [OF env(2), of "malloc_block scenario_surroundings"
      "memory_of scenario_options_empty_type" 9 d0 2 4 4]
  obtain ost where
    lp: "dhcp_input_loop (malloc_block scenario_surroundings)
           (memory_of scenario_options_empty_type) 9
           \<lparr>option_data = aligned_buffer scenario_surroundings,
            ignore_option = replicate 32 0, server_data = d0\<rparr>
           [(53, 0, 2), (2, 4, 4)] = Some (Returns ost)"
    and od0: "dhcp_option (server_data ost) =
              dhcp_option d0 @ [(''dhcp-message-type'', ''0''),
                                (''option-2'', fmt_u (unat (4 :: octet)) @ '' data bytes'')]"
    by blast
  have od: "dhcp_option (server_data ost) =
            [(''dhcp-message-type'', ''0''), (''option-2'', ''4 data bytes'')]"
    by (simp add: od0 d0 fmt_u.simps digit_char_def)
  have "snd (dhcp_input (scenario_globals True False) scenario_surroundings scenario_eframe
               scenario_ip_src dhcp 0x12345678 249 scenario_state) =
        Some (Returns (scenario_state\<lparr>dhcp_server_response_list :=
                         dhcp_server_response_list scenario_state @ [server_data ost]\<rparr>))"
    using dhcp_input_new [OF acc nf env(1), of "scenario_globals True False",
        unfolded v nine scenario_empty_type_scan d0_def [symmetric] lp]
    by (simp add: scenario_state_def)
  then have r: "recorded_options
                  (snd (dhcp_input (scenario_globals True False) scenario_surroundings
                          scenario_eframe scenario_ip_src dhcp 0x12345678 249
                          scenario_state)) =
                Some [[(''dhcp-message-type'', ''0''), (''option-2'', ''4 data bytes'')]]"
    by (simp add: recorded_options_def od scenario_state_def)
  have e: "recorded_options (Some (Returns scenario_state)) = Some []"
    by (simp add: recorded_options_def scenario_state_def)
  from scenario_empty_type_message_type scenario_empty_type_scan e w r
  show ?thesis unfolding dhcp_def by blast
qed

text \<open>
  C7: when an accepted OFFER comes from a server whose IPv4 address and MAC address are
  those of a record \<open>r\<close> of the registry, \<open>dhcp_input\<close> returns with the state unchanged:
  the registry is the same list of the same records (every record keeps its time stamp
  and its key/value lists, no record is added and the order is the same), and
  \<open>opt_max_response_count\<close> is unchanged. Unless \<open>--quiet\<close> is set, the call writes to the
  standard error stream the line that says that the response from the server at its IPv4
  address and MAC address is a duplicate and is ignored (after the bell character, if
  \<open>--audible\<close> is set); with \<open>--quiet\<close> it writes no line.
\<close>

theorem dhcp_input_duplicate_unchanged:
  assumes "\<not> dhcp_input_rejects dhcp T len"
    and "r \<in> set (dhcp_server_response_list st)"
    and "take 4 (server_ipv4_address r) = take 4 (server_ipv4_address_of (ntohl ip_src))"
    and "take 6 (server_mac_address r) = take 6 (ether_shost eframe)"
  shows "dhcp_input g env eframe ip_src dhcp T len st =
         ((if opt_audible g then [CHR 0x07] else []) @
          (if opt_quiet g then []
           else command_name g @
                '': Duplicate response from DHCP server at IPv4 address '' @
                fmt_octets4 (server_ipv4_address_of (ntohl ip_src)) @ ''/MAC address '' @
                fmt_mac (ether_shost eframe) @ '' ignored.'' @ [CHR 0x0A]),
          Some (Returns st))"
proof -
  from find_dhcp_server_data_present [OF assms(2-4)]
  obtain found where "find_dhcp_server_data (dhcp_server_response_list st)
      (server_ipv4_address_of (ntohl ip_src)) (ether_shost eframe) = Some found"
    by blast
  with assms(1) show ?thesis
    unfolding duplicate_message_def [symmetric] by (rule dhcp_input_duplicate)
qed

lemma scenario_recorded_member:
  "hd (dhcp_server_response_list scenario_state_recorded) \<in>
     set (dhcp_server_response_list scenario_state_recorded) \<and>
   take 4 (server_ipv4_address (hd (dhcp_server_response_list scenario_state_recorded))) =
     take 4 (server_ipv4_address_of (ntohl scenario_ip_src)) \<and>
   take 6 (server_mac_address (hd (dhcp_server_response_list scenario_state_recorded))) =
     take 6 (ether_shost scenario_eframe)"
  by (simp add: scenario_server_address scenario_state_recorded_def scenario_eframe_def)

theorem dhcp_input_duplicate_unchanged_witness:
  "\<not> dhcp_input_rejects (scenario_offer [0x12, 0x34, 0x56, 0x78] (memory_of scenario_options))
       0x12345678 268 \<and>
   hd (dhcp_server_response_list scenario_state_recorded) \<in>
     set (dhcp_server_response_list scenario_state_recorded) \<and>
   take 4 (server_ipv4_address (hd (dhcp_server_response_list scenario_state_recorded))) =
     take 4 (server_ipv4_address_of (ntohl scenario_ip_src)) \<and>
   take 6 (server_mac_address (hd (dhcp_server_response_list scenario_state_recorded))) =
     take 6 (ether_shost scenario_eframe) \<and>
   dhcp_input (scenario_globals False False) scenario_surroundings scenario_eframe
     scenario_ip_src (scenario_offer [0x12, 0x34, 0x56, 0x78] (memory_of scenario_options))
     0x12345678 268 scenario_state_recorded =
   (''find-dhcp-servers: Duplicate response from DHCP server at IPv4 address 192.168.1.1/MAC address aa:bb:cc:dd:ee:ff ignored.'' @ [CHR 0x0A],
    Some (Returns scenario_state_recorded)) \<and>
   dhcp_input (scenario_globals False True) scenario_surroundings scenario_eframe
     scenario_ip_src (scenario_offer [0x12, 0x34, 0x56, 0x78] (memory_of scenario_options))
     0x12345678 268 scenario_state_recorded =
   ([], Some (Returns scenario_state_recorded))"
proof -
  note m = scenario_recorded_member
  have t: "command_name (scenario_globals False False) @
           '': Duplicate response from DHCP server at IPv4 address '' @
           fmt_octets4 (server_ipv4_address_of (ntohl scenario_ip_src)) @ ''/MAC address '' @
           fmt_mac (ether_shost scenario_eframe) @ '' ignored.'' @ [CHR 0x0A] =
           ''find-dhcp-servers: Duplicate response from DHCP server at IPv4 address 192.168.1.1/MAC address aa:bb:cc:dd:ee:ff ignored.'' @ [CHR 0x0A]"
    using scenario_duplicate_line [of False False] by (simp only: duplicate_message_def)
  have g: "\<not> opt_audible (scenario_globals False False)"
    "\<not> opt_quiet (scenario_globals False False)"
    "\<not> opt_audible (scenario_globals False True)" "opt_quiet (scenario_globals False True)"
    by (simp_all add: scenario_globals_def)
  have a: "dhcp_input (scenario_globals False False) scenario_surroundings scenario_eframe
     scenario_ip_src (scenario_offer [0x12, 0x34, 0x56, 0x78] (memory_of scenario_options))
     0x12345678 268 scenario_state_recorded =
   (''find-dhcp-servers: Duplicate response from DHCP server at IPv4 address 192.168.1.1/MAC address aa:bb:cc:dd:ee:ff ignored.'' @ [CHR 0x0A],
    Some (Returns scenario_state_recorded))"
    using dhcp_input_duplicate_unchanged
      [OF scenario_accepted m [THEN conjunct1] m [THEN conjunct2, THEN conjunct1]
          m [THEN conjunct2, THEN conjunct2],
       of "scenario_globals False False" scenario_surroundings]
    by (simp only: g if_False t append_Nil)
  have b: "dhcp_input (scenario_globals False True) scenario_surroundings scenario_eframe
     scenario_ip_src (scenario_offer [0x12, 0x34, 0x56, 0x78] (memory_of scenario_options))
     0x12345678 268 scenario_state_recorded =
   ([], Some (Returns scenario_state_recorded))"
    using dhcp_input_duplicate_unchanged
      [OF scenario_accepted m [THEN conjunct1] m [THEN conjunct2, THEN conjunct1]
          m [THEN conjunct2, THEN conjunct2],
       of "scenario_globals False True" scenario_surroundings]
    by (simp only: g if_False if_True append_Nil)
  from scenario_accepted m a b show ?thesis by blast
qed

text \<open>
  C8, as amended: under \<open>--audible\<close> the bell character is written to the standard error
  stream for every accepted OFFER, whether it is the first one from its responder or a
  duplicate, and for no frame that is dropped. Whatever the call does afterwards, also if
  it does not return, what it writes is the bell character first, followed by the line
  about the duplicate (or about the lack of memory) unless \<open>--quiet\<close> is set; for a frame
  that fails the acceptance test it writes nothing.
\<close>

theorem dhcp_input_bell_every_accepted:
  assumes "opt_audible g"
  shows "fst (dhcp_input g env eframe ip_src dhcp T len st) =
         (if dhcp_input_rejects dhcp T len then []
          else CHR 0x07 #
            (case find_dhcp_server_data (dhcp_server_response_list st)
                    (server_ipv4_address_of (ntohl ip_src)) (ether_shost eframe) of
               Some found \<Rightarrow>
                 if opt_quiet g then []
                 else duplicate_message g (server_ipv4_address_of (ntohl ip_src))
                        (ether_shost eframe)
             | None \<Rightarrow>
                 if calloc_fails env \<and> \<not> opt_quiet g
                 then no_memory_message g (server_ipv4_address_of (ntohl ip_src))
                        (ether_shost eframe)
                 else []))"
proof (cases "dhcp_input_rejects dhcp T len")
  case True
  then show ?thesis by (simp add: dhcp_input_rejected)
next
  case False
  from dhcp_input_written [OF False, of g env eframe ip_src st] assms False
  show ?thesis by simp
qed

lemma scenario_self_pointer_never_returns:
  "snd (dhcp_input (scenario_globals True False) scenario_surroundings scenario_eframe
          scenario_ip_src
          (scenario_offer [0x12, 0x34, 0x56, 0x78] (memory_of scenario_options_self_pointer))
          0x12345678 249 scenario_state) = None"
proof -
  define dhcp where
    "dhcp = scenario_offer [0x12, 0x34, 0x56, 0x78] (memory_of scenario_options_self_pointer)"
  have v: "vend dhcp = memory_of scenario_options_self_pointer"
    by (simp add: dhcp_def scenario_offer_def)
  have acc: "\<not> dhcp_input_rejects dhcp 0x12345678 249"
    unfolding dhcp_def by (rule scenario_self_pointer_accepted)
  have nf: "find_dhcp_server_data (dhcp_server_response_list scenario_state)
              (server_ipv4_address_of (ntohl scenario_ip_src)) (ether_shost scenario_eframe) =
            None"
    by (rule scenario_not_recorded)
  have env: "\<not> calloc_fails scenario_surroundings"
    "length (aligned_buffer scenario_surroundings) = 260"
    by (simp_all add: scenario_surroundings_def)
  have nine: "(249 :: int) - 240 = 9" by simp
  have lp: "dhcp_input_loop (malloc_block scenario_surroundings)
           (memory_of scenario_options_self_pointer) 9
           \<lparr>option_data = aligned_buffer scenario_surroundings,
            ignore_option = replicate 32 0,
            server_data = dhcp_input_response (scenario_globals True False) scenario_eframe
              (server_ipv4_address_of (ntohl scenario_ip_src)) dhcp
              \<lparr>stamp = time_of_day scenario_surroundings,
               server_ipv4_address = take 4 (server_ipv4_address_of (ntohl scenario_ip_src)),
               server_mac_address = take 6 (ether_shost scenario_eframe),
               dhcp_response = [], dhcp_option = []\<rparr>\<rparr>
           [(53, 1, 2), (119, 2, 6)] = None"
    using env(2) decode_domain_search_never_returns
    by (rule dhcp_input_loop_53_119_never_returns)
  have "snd (dhcp_input (scenario_globals True False) scenario_surroundings
               scenario_eframe scenario_ip_src dhcp 0x12345678 249 scenario_state) = None"
    using dhcp_input_new [OF acc nf env(1), of "scenario_globals True False",
        unfolded v nine scenario_self_pointer_scan lp]
    by simp
  then show ?thesis unfolding dhcp_def .
qed

theorem dhcp_input_bell_every_accepted_witness:
  "opt_audible (scenario_globals True False) \<and>
   dhcp_input (scenario_globals True False) scenario_surroundings scenario_eframe
     scenario_ip_src
     (scenario_offer [0x12, 0x34, 0x56, 0x78] (memory_of scenario_options_self_pointer))
     0x12345678 249 scenario_state = ([CHR 0x07], None) \<and>
   fst (dhcp_input (scenario_globals True False) scenario_surroundings scenario_eframe
          scenario_ip_src
          (scenario_offer [0x12, 0x34, 0x56, 0x79] (memory_of scenario_options))
          0x12345678 268 scenario_state) = []"
proof -
  have a: "opt_audible (scenario_globals True False)" by (simp add: scenario_globals_def)
  have env: "\<not> calloc_fails scenario_surroundings" by (simp add: scenario_surroundings_def)
  have "fst (dhcp_input (scenario_globals True False) scenario_surroundings scenario_eframe
          scenario_ip_src
          (scenario_offer [0x12, 0x34, 0x56, 0x78] (memory_of scenario_options_self_pointer))
          0x12345678 249 scenario_state) = [CHR 0x07]"
    using dhcp_input_bell_every_accepted [OF a, of scenario_surroundings scenario_eframe
        scenario_ip_src
        "scenario_offer [0x12, 0x34, 0x56, 0x78] (memory_of scenario_options_self_pointer)"
        "0x12345678" 249 scenario_state]
      scenario_self_pointer_accepted env
    by (simp add: scenario_not_recorded)
  with scenario_self_pointer_never_returns
  have h: "dhcp_input (scenario_globals True False) scenario_surroundings scenario_eframe
     scenario_ip_src
     (scenario_offer [0x12, 0x34, 0x56, 0x78] (memory_of scenario_options_self_pointer))
     0x12345678 249 scenario_state = ([CHR 0x07], None)"
    by (simp add: prod_eq_iff)
  have "dhcp_input_rejects (scenario_offer [0x12, 0x34, 0x56, 0x79] (memory_of scenario_options))
          0x12345678 268"
    by (simp add: dhcp_input_rejects_def scenario_offer_def ntohl_def)
  then have r: "fst (dhcp_input (scenario_globals True False) scenario_surroundings
          scenario_eframe scenario_ip_src
          (scenario_offer [0x12, 0x34, 0x56, 0x79] (memory_of scenario_options))
          0x12345678 268 scenario_state) = []"
    using dhcp_input_bell_every_accepted [OF a, of scenario_surroundings scenario_eframe
        scenario_ip_src
        "scenario_offer [0x12, 0x34, 0x56, 0x79] (memory_of scenario_options)"
        "0x12345678" 268 scenario_state]
    by simp
  from a h r show ?thesis by blast
qed

text \<open>
  C8 as stated fails: under \<open>--audible\<close>, an accepted OFFER from a responder that is already
  recorded makes \<open>dhcp_input\<close> write the bell character, before the line about the
  duplicate.
\<close>

theorem dhcp_input_bell_counterexample:
  "find_dhcp_server_data (dhcp_server_response_list scenario_state_recorded)
     (server_ipv4_address_of (ntohl scenario_ip_src)) (ether_shost scenario_eframe) =
   Some (hd (dhcp_server_response_list scenario_state_recorded)) \<and>
   dhcp_input (scenario_globals True False) scenario_surroundings scenario_eframe
     scenario_ip_src (scenario_offer [0x12, 0x34, 0x56, 0x78] (memory_of scenario_options))
     0x12345678 268 scenario_state_recorded =
   (CHR 0x07 #
    ''find-dhcp-servers: Duplicate response from DHCP server at IPv4 address 192.168.1.1/MAC address aa:bb:cc:dd:ee:ff ignored.'' @ [CHR 0x0A],
    Some (Returns scenario_state_recorded))"
proof -
  have "dhcp_input (scenario_globals True False) scenario_surroundings scenario_eframe
     scenario_ip_src (scenario_offer [0x12, 0x34, 0x56, 0x78] (memory_of scenario_options))
     0x12345678 268 scenario_state_recorded =
   (CHR 0x07 #
    ''find-dhcp-servers: Duplicate response from DHCP server at IPv4 address 192.168.1.1/MAC address aa:bb:cc:dd:ee:ff ignored.'' @ [CHR 0x0A],
    Some (Returns scenario_state_recorded))"
    using dhcp_input_duplicate [OF scenario_accepted scenario_recorded,
        of "scenario_globals True False" scenario_surroundings]
      scenario_duplicate_line [of True False]
    by (simp add: scenario_globals_def)
  with scenario_recorded show ?thesis by blast
qed

text \<open>
  C10: for an option that is rendered as a raw string (domain-name 15, message 56,
  ldap-url 95, web-proxy-auto-discovery 252, netbios-scope 47), the body of the option
  loop copies exactly the declared \<open>option_length\<close> octets from the position of the value
  into the aligned buffer, puts a NUL behind them, and adds one key/value entry whose
  value is the copied octets up to their first NUL octet. So the value has at most
  \<open>option_length\<close> characters.
\<close>

theorem dhcp_input_option_raw_string_value:
  assumes "option_state_ok st"
    and "(t, k) \<in> {(15, ''domain-name''), (56, ''message''), (95, ''ldap-url''),
                     (252, ''web-proxy-auto-discovery''), (47, ''netbios-over-tcp-ip-scope'')}"
  shows "dhcp_input_option fresh v l st (t, n, pos) =
         Some (Returns ((copy_option_data v st pos (unat n))
                 \<lparr>server_data :=
                    add_dhcp_option (server_data st) k
                      (map char_of_octet
                         (takeWhile (\<lambda>b. b \<noteq> 0) (mem_read v pos (unat n))))\<rparr>)) \<and>
         length (map char_of_octet (takeWhile (\<lambda>b. b \<noteq> 0) (mem_read v pos (unat n))))
           \<le> unat n"
  using dhcp_input_option_raw_string [OF assms] raw_string_length by blast

lemma scenario_option_state_ok:
  "option_state_ok \<lparr>option_data = replicate 260 0, ignore_option = replicate 32 0,
                     server_data = hd (dhcp_server_response_list scenario_state_recorded)\<rparr>"
  by (simp add: option_state_ok_def)

theorem dhcp_input_option_raw_string_value_witness:
  "option_state_ok \<lparr>option_data = replicate 260 0, ignore_option = replicate 32 0,
                     server_data = hd (dhcp_server_response_list scenario_state_recorded)\<rparr> \<and>
   (15, ''domain-name'') \<in> {(15, ''domain-name''), (56, ''message''), (95, ''ldap-url''),
                     (252, ''web-proxy-auto-discovery''), (47, ''netbios-over-tcp-ip-scope'')} \<and>
   dhcp_input_option (\<lambda>i. 0) (memory_of [15, 4, 0x6c, 0x61, 0x00, 0x6e, 255]) 7
     \<lparr>option_data = replicate 260 0, ignore_option = replicate 32 0,
      server_data = hd (dhcp_server_response_list scenario_state_recorded)\<rparr> (15, 4, 2) =
   Some (Returns ((copy_option_data (memory_of [15, 4, 0x6c, 0x61, 0x00, 0x6e, 255])
                     \<lparr>option_data = replicate 260 0, ignore_option = replicate 32 0,
                      server_data = hd (dhcp_server_response_list scenario_state_recorded)\<rparr>
                     2 (unat (4 :: octet)))
           \<lparr>server_data :=
              add_dhcp_option
                (server_data
                   \<lparr>option_data = replicate 260 0, ignore_option = replicate 32 0,
                    server_data = hd (dhcp_server_response_list scenario_state_recorded)\<rparr>)
                ''domain-name''
                (map char_of_octet
                   (takeWhile (\<lambda>b. b \<noteq> 0)
                      (mem_read (memory_of [15, 4, 0x6c, 0x61, 0x00, 0x6e, 255]) 2
                         (unat (4 :: octet)))))\<rparr>)) \<and>
   length (map char_of_octet
             (takeWhile (\<lambda>b. b \<noteq> 0)
                (mem_read (memory_of [15, 4, 0x6c, 0x61, 0x00, 0x6e, 255]) 2 (unat (4 :: octet)))))
     \<le> unat (4 :: octet)"
proof -
  have m: "(15, ''domain-name'') \<in> {(15 :: octet, ''domain-name''), (56, ''message''),
             (95, ''ldap-url''), (252, ''web-proxy-auto-discovery''),
             (47, ''netbios-over-tcp-ip-scope'')}"
    by (rule insertI1)
  from scenario_option_state_ok m
    dhcp_input_option_raw_string_value [OF scenario_option_state_ok m,
      of "\<lambda>i. 0" "memory_of [15, 4, 0x6c, 0x61, 0x00, 0x6e, 255]" 7 4 2]
  show ?thesis by blast
qed

text \<open>
  C9, the code at the failing input: an option 57 (maximum-dhcp-message-size) whose
  declared length is 2, as RFC 2132 defines it, is copied into the aligned buffer and
  then skipped, because the code asks for a length of at least 4. No key is added to the
  record, whatever the two value octets are.
\<close>

theorem dhcp_input_option_57_length_2:
  "dhcp_input_option fresh v l st (57, 2, pos) = Some (Returns (copy_option_data v st pos 2)) \<and>
   server_data (copy_option_data v st pos 2) = server_data st"
  using dhcp_input_option_57_short [of 2 fresh v l st pos]
  by (simp add: copy_option_data_simps)

text \<open>
  C1, the code at the failing input: in an option area of 6 octets that holds
  \<open>53 1 2 15 3 65\<close>, the loop of \<open>dhcp_input\<close> reaches the option 15 with the declared
  length 3 and its value at position 5. The copy reads the octets at the positions 5, 6
  and 7; the last two lie behind the option area, and they end up in the string.
\<close>

theorem dhcp_input_scan_reads_past_end:
  "dhcp_input_scan (memory_of [53, 1, 2, 15, 3, 65, 66, 67]) 6 0 = [(53, 1, 2), (15, 3, 5)] \<and>
   mem_read (memory_of [53, 1, 2, 15, 3, 65, 66, 67]) 5 (unat (3 :: octet)) = [65, 66, 67] \<and>
   \<not> 5 + unat (3 :: octet) \<le> 6"
  by (simp add: dhcp_input_scan.simps memory_of_def mem_read_def upt_rec)

text \<open>
  C3, the code at the input of the specification: \<open>decode_classless_static_route\<close> reads
  the first octet of an entry as the number of destination octets and gives up when it is
  greater than 4. On the payload \<open>18 AC 10 00 AC 10 00 01 00 C0 A8 00 01\<close>, whose first octet
  is the prefix length 24, it returns \<open>-1\<close> with an empty text, and the option is not
  reported.
\<close>

theorem decode_classless_static_route_rejects_prefix_length:
  "decode_classless_static_route
     [0x18, 0xAC, 0x10, 0x00, 0xAC, 0x10, 0x00, 0x01, 0x00, 0xC0, 0xA8, 0x00, 0x01] 13 1500 =
   Returns (- 1, [])"
  by (simp add: decode_classless_static_route_def decode_classless_static_route_loop.simps)

text \<open>
  C4, the code at the failing input: on the buffer \<open>C0 00\<close>, a compression pointer to
  offset 0, which is the pointer itself, \<open>decode_domain_name\<close> started at offset 0 never
  returns.
\<close>

theorem decode_domain_name_never_returns:
  "decode_domain_name [0xC0, 0x00] 2 0 256 = None"
  by (simp add: decode_domain_name_def decode_domain_name_loop_self_pointer)

end
